theory Spec2Isabelle
  imports Complex_Main
begin

section \<open>The session state: GameStateService\<close>

text \<open>
  The service of \<^verbatim>\<open>game-state.service.ts\<close>: three signals, read and written by the
  user interface and by the scene component. JavaScript numbers are modelled as reals;
  the lane index, which only ever holds \<open>-1\<close>, \<open>0\<close> or \<open>1\<close>, is an integer.
\<close>

datatype GameStatus = MENU | PLAYING | GAME_OVER

record GameStateService =
  status :: GameStatus
  score :: real
  speed :: real

definition initialGameState :: GameStateService where
  "initialGameState = \<lparr>status = MENU, score = 0, speed = 1.0\<rparr>"

definition isPlaying :: "GameStateService \<Rightarrow> bool" where
  "isPlaying g = (status g = PLAYING)"

definition isGameOver :: "GameStateService \<Rightarrow> bool" where
  "isGameOver g = (status g = GAME_OVER)"

definition isMenu :: "GameStateService \<Rightarrow> bool" where
  "isMenu g = (status g = MENU)"

definition startGame :: "GameStateService \<Rightarrow> GameStateService" where
  "startGame g = g\<lparr>score := 0, speed := 1.0, status := PLAYING\<rparr>"

definition endGame :: "GameStateService \<Rightarrow> GameStateService" where
  "endGame g = g\<lparr>status := GAME_OVER\<rparr>"

definition resetGame :: "GameStateService \<Rightarrow> GameStateService" where
  "resetGame g = g\<lparr>status := MENU, score := 0\<rparr>"

definition incrementScore :: "real \<Rightarrow> GameStateService \<Rightarrow> GameStateService" where
  "incrementScore amount g =
     (if isPlaying g
      then g\<lparr>score := score g + amount, speed := min (speed g + 0.001) 2.5\<rparr>
      else g)"


section \<open>The scene component: ThreeSceneComponent\<close>

text \<open>
  Two skins of the component share the simulation: the space cat of
  \<^verbatim>\<open>three-scene.component.ts\<close> and the plane of the second copy. Where they differ
  (constants, banking, the collision test, the crash pose) the model branches on the skin.
\<close>

datatype skin = Cat | Plane

record Vector3 =
  vx :: real
  vy :: real
  vz :: real

record Box3 =
  bmin :: Vector3
  bmax :: Vector3

text \<open>
  The player group: the transform fields of a \<^verbatim>\<open>THREE.Group\<close> that the code writes,
  and the angle of the propeller (\<^verbatim>\<open>this.propeller.rotation.z\<close>), a child of the
  plane's player group that the plane skin turns every frame. The cat has no propeller;
  its field is never written.
\<close>

record Group =
  position :: Vector3
  rotation :: Vector3
  scale :: Vector3
  propeller_rotZ :: real

datatype obstacleType = box | tall | balloon | pylon

text \<open>
  An obstacle group: its kind, its position, and the rotation of its first child
  (\<^verbatim>\<open>obs.children[0].rotation\<close>), which the cat skin spins each frame.
\<close>

record Obstacle =
  otype :: obstacleType
  oposition :: Vector3
  child0_rotation :: Vector3

record ThreeSceneComponent =
  gameState :: GameStateService
  player :: Group
  currentLane :: int
  targetX :: real
  isJumping :: bool
  jumpVelocity :: real
  playerY :: real
  lastGameStatus :: GameStatus
  obstacles :: "Obstacle list"
  lastObstacleTime :: real

definition laneWidth :: real where "laneWidth = 3.0"
definition gravity :: real where "gravity = - 0.02"
definition jumpForce :: real where "jumpForce = 0.5"
definition obstacleSpawnRate :: real where "obstacleSpawnRate = 1200"

definition vec3 :: "real \<Rightarrow> real \<Rightarrow> real \<Rightarrow> Vector3" where
  "vec3 a b c = \<lparr>vx = a, vy = b, vz = c\<rparr>"

text \<open>
  The component after \<^verbatim>\<open>ngAfterViewInit\<close> has built the scene: the field initialisers
  of the class, and a fresh player group (position and rotation zero, scale one). The
  player exists from then on, so the \<^verbatim>\<open>if (this.player)\<close> guards are always taken.
  Stars, clouds, floor grid, camera and renderer are written by the frame loop but read
  by nothing the simulation computes; they are left out.
\<close>

definition initialComponent :: ThreeSceneComponent where
  "initialComponent =
     \<lparr>gameState = initialGameState,
      player = \<lparr>position = vec3 0 0 0, rotation = vec3 0 0 0, scale = vec3 1 1 1,
                propeller_rotZ = 0\<rparr>,
      currentLane = 0, targetX = 0, isJumping = False, jumpVelocity = 0, playerY = 0,
      lastGameStatus = MENU, obstacles = [], lastObstacleTime = 0\<rparr>"

abbreviation posX :: "ThreeSceneComponent \<Rightarrow> real" where
  "posX s \<equiv> vx (position (player s))"
abbreviation posY :: "ThreeSceneComponent \<Rightarrow> real" where
  "posY s \<equiv> vy (position (player s))"
abbreviation posZ :: "ThreeSceneComponent \<Rightarrow> real" where
  "posZ s \<equiv> vz (position (player s))"
abbreviation rotX :: "ThreeSceneComponent \<Rightarrow> real" where
  "rotX s \<equiv> vx (rotation (player s))"
abbreviation rotY :: "ThreeSceneComponent \<Rightarrow> real" where
  "rotY s \<equiv> vy (rotation (player s))"
abbreviation rotZ :: "ThreeSceneComponent \<Rightarrow> real" where
  "rotZ s \<equiv> vz (rotation (player s))"
abbreviation scaleY :: "ThreeSceneComponent \<Rightarrow> real" where
  "scaleY s \<equiv> vy (scale (player s))"

abbreviation setPosX :: "real \<Rightarrow> ThreeSceneComponent \<Rightarrow> ThreeSceneComponent" where
  "setPosX v s \<equiv> s\<lparr>player := (player s)\<lparr>position := (position (player s))\<lparr>vx := v\<rparr>\<rparr>\<rparr>"
abbreviation setPosY :: "real \<Rightarrow> ThreeSceneComponent \<Rightarrow> ThreeSceneComponent" where
  "setPosY v s \<equiv> s\<lparr>player := (player s)\<lparr>position := (position (player s))\<lparr>vy := v\<rparr>\<rparr>\<rparr>"
abbreviation setRotX :: "real \<Rightarrow> ThreeSceneComponent \<Rightarrow> ThreeSceneComponent" where
  "setRotX v s \<equiv> s\<lparr>player := (player s)\<lparr>rotation := (rotation (player s))\<lparr>vx := v\<rparr>\<rparr>\<rparr>"
abbreviation setRotY :: "real \<Rightarrow> ThreeSceneComponent \<Rightarrow> ThreeSceneComponent" where
  "setRotY v s \<equiv> s\<lparr>player := (player s)\<lparr>rotation := (rotation (player s))\<lparr>vy := v\<rparr>\<rparr>\<rparr>"
abbreviation setRotZ :: "real \<Rightarrow> ThreeSceneComponent \<Rightarrow> ThreeSceneComponent" where
  "setRotZ v s \<equiv> s\<lparr>player := (player s)\<lparr>rotation := (rotation (player s))\<lparr>vz := v\<rparr>\<rparr>\<rparr>"
abbreviation setScaleY :: "real \<Rightarrow> ThreeSceneComponent \<Rightarrow> ThreeSceneComponent" where
  "setScaleY v s \<equiv> s\<lparr>player := (player s)\<lparr>scale := (scale (player s))\<lparr>vy := v\<rparr>\<rparr>\<rparr>"
abbreviation setPropellerRotZ :: "real \<Rightarrow> ThreeSceneComponent \<Rightarrow> ThreeSceneComponent" where
  "setPropellerRotZ v s \<equiv> s\<lparr>player := (player s)\<lparr>propeller_rotZ := v\<rparr>\<rparr>"


subsection \<open>Commands: changeLane, jump, handleKeyboardEvent\<close>

text \<open>
  \<^verbatim>\<open>changeLane(direction)\<close>; the key handler calls it with \<open>-1\<close> and \<open>1\<close> only. The cat
  skin also tilts the player on an accepted change.
\<close>

definition changeLane :: "skin \<Rightarrow> int \<Rightarrow> ThreeSceneComponent \<Rightarrow> ThreeSceneComponent" where
  "changeLane sk direction s =
     (let newLane = currentLane s + direction in
      if newLane \<ge> -1 \<and> newLane \<le> 1
      then (let s1 = s\<lparr>currentLane := newLane\<rparr>;
                s2 = s1\<lparr>targetX := of_int (currentLane s1) * laneWidth\<rparr>
            in case sk of
                 Cat \<Rightarrow> setRotZ (- of_int direction * 0.2) s2
               | Plane \<Rightarrow> s2)
      else s)"

definition jump :: "ThreeSceneComponent \<Rightarrow> ThreeSceneComponent" where
  "jump s =
     (if \<not> isJumping s
      then s\<lparr>isJumping := True, jumpVelocity := jumpForce\<rparr>
      else s)"

text \<open>The key handler; \<open>key\<close> is \<^verbatim>\<open>event.key\<close>.\<close>

definition handleKeyboardEvent :: "skin \<Rightarrow> string \<Rightarrow> ThreeSceneComponent \<Rightarrow> ThreeSceneComponent" where
  "handleKeyboardEvent sk key s =
     (if \<not> isPlaying (gameState s) then s
      else if key = ''ArrowLeft'' \<or> key = ''a'' \<or> key = ''A'' then changeLane sk (-1) s
      else if key = ''ArrowRight'' \<or> key = ''d'' \<or> key = ''D'' then changeLane sk 1 s
      else if key = ''ArrowUp'' \<or> key = '' '' \<or> key = ''w'' \<or> key = ''W'' then jump s
      else s)"


subsection \<open>Spawning and resetting\<close>

text \<open>
  What one animation frame reads from outside: \<^verbatim>\<open>Date.now()\<close> at the start of
  \<^verbatim>\<open>animate\<close>, \<^verbatim>\<open>Date.now()\<close> read again inside \<^verbatim>\<open>resetScene\<close>, and the
  \<^verbatim>\<open>Math.random()\<close> draws of \<^verbatim>\<open>spawnObstacle\<close> (lane, type, and the tilt of a tall
  obstacle).
\<close>

record frame_input =
  now :: real
  reset_now :: real
  lane_draw :: real
  type_draw :: real
  tilt_draw :: real

text \<open>
  \<^verbatim>\<open>lanes[Math.floor(Math.random() * lanes.length)]\<close> with \<^verbatim>\<open>lanes = [-1, 0, 1]\<close>.
  \<^verbatim>\<open>Math.random()\<close> lies in \<open>[0, 1)\<close>, so the index is 0, 1 or 2; the last branch
  stands for index 2.
\<close>

definition pickLane :: "real \<Rightarrow> int" where
  "pickLane r =
     (let i = \<lfloor>r * 3\<rfloor> in if i = 0 then -1 else if i = 1 then 0 else 1)"

definition spawnZ :: "skin \<Rightarrow> real" where
  "spawnZ sk = (case sk of Cat \<Rightarrow> - 80 | Plane \<Rightarrow> - 100)"

definition spawnObstacle :: "skin \<Rightarrow> frame_input \<Rightarrow> ThreeSceneComponent \<Rightarrow> ThreeSceneComponent" where
  "spawnObstacle sk t s =
     (if \<not> isPlaying (gameState s) then s
      else
        (let lane = pickLane (lane_draw t);
             xPos = of_int lane * laneWidth;
             obstacleGroup =
               (case sk of
                  Cat \<Rightarrow>
                    (if type_draw t > 0.6
                     then \<lparr>otype = box, oposition = vec3 xPos 0 (spawnZ sk),
                           child0_rotation = vec3 0 0 0\<rparr>
                     else \<lparr>otype = tall, oposition = vec3 xPos 0 (spawnZ sk),
                           child0_rotation = vec3 0 0 (tilt_draw t)\<rparr>)
                | Plane \<Rightarrow>
                    (if type_draw t > 0.5
                     then \<lparr>otype = balloon, oposition = vec3 xPos 0 (spawnZ sk),
                           child0_rotation = vec3 0 0 0\<rparr>
                     else \<lparr>otype = pylon, oposition = vec3 xPos 0 (spawnZ sk),
                           child0_rotation = vec3 0 0 0\<rparr>))
         in s\<lparr>obstacles := obstacles s @ [obstacleGroup]\<rparr>))"

text \<open>\<^verbatim>\<open>resetScene\<close>; \<open>t\<close> is the value of \<^verbatim>\<open>Date.now()\<close> it reads.\<close>

definition resetScene :: "real \<Rightarrow> ThreeSceneComponent \<Rightarrow> ThreeSceneComponent" where
  "resetScene t s =
     s\<lparr>obstacles := [],
       currentLane := 0,
       targetX := 0,
       player := (player s)\<lparr>position := vec3 0 0 0, rotation := vec3 0 0 0\<rparr>,
       isJumping := False,
       playerY := 0,
       lastObstacleTime := t\<rparr>"


subsection \<open>Player kinematics: updatePlayer\<close>

definition lerpSpeed :: "skin \<Rightarrow> real" where
  "lerpSpeed sk = (case sk of Cat \<Rightarrow> 10 | Plane \<Rightarrow> 8)"

text \<open>Lateral movement and lean (cat) or bank (plane).\<close>

definition lateralMove :: "skin \<Rightarrow> real \<Rightarrow> ThreeSceneComponent \<Rightarrow> ThreeSceneComponent" where
  "lateralMove sk deltaTime s =
     (let s1 = setPosX (posX s + (targetX s - posX s) * lerpSpeed sk * deltaTime) s in
      case sk of
        Cat \<Rightarrow>
          (let targetRotZ = (posX s1 - targetX s1) * 0.1
           in setRotZ (rotZ s1 + (targetRotZ - rotZ s1) * lerpSpeed sk * deltaTime) s1)
      | Plane \<Rightarrow>
          (let moveDelta = targetX s1 - posX s1;
               targetBank = - moveDelta * 0.3;
               maxBank = 0.8;
               clampedBank = max (- maxBank) (min maxBank targetBank)
           in setRotZ (rotZ s1 + (clampedBank - rotZ s1) * lerpSpeed sk * deltaTime) s1))"

text \<open>The jump physics of \<^verbatim>\<open>updatePlayer\<close>, and the idle bob when not jumping.\<close>

definition jumpPhysics :: "skin \<Rightarrow> real \<Rightarrow> ThreeSceneComponent \<Rightarrow> ThreeSceneComponent" where
  "jumpPhysics sk t s =
     (if isJumping s
      then
        (let s1 = s\<lparr>playerY := playerY s + jumpVelocity s\<rparr>;
             s2 = s1\<lparr>jumpVelocity := jumpVelocity s1 + gravity\<rparr>
         in case sk of
              Cat \<Rightarrow>
                (if playerY s2 \<le> 0
                 then setScaleY 0.85 (s2\<lparr>playerY := 0, isJumping := False, jumpVelocity := 0\<rparr>)
                 else setScaleY 1.15 s2)
            | Plane \<Rightarrow>
                (let targetPitch = min (max (jumpVelocity s2 * 2) (- 0.5)) 0.8;
                     s3 = setRotX targetPitch s2
                 in if playerY s3 \<le> 0
                    then setRotX 0 (s3\<lparr>playerY := 0, isJumping := False, jumpVelocity := 0\<rparr>)
                    else s3))
      else
        (case sk of
           Cat \<Rightarrow> s\<lparr>playerY := \<bar>sin (t * 0.015)\<bar> * 0.1\<rparr>
         | Plane \<Rightarrow> setRotX (sin (t * 0.002) * 0.05) (s\<lparr>playerY := \<bar>sin (t * 0.003)\<bar> * 0.2\<rparr>)))"

definition updatePlayer :: "skin \<Rightarrow> real \<Rightarrow> real \<Rightarrow> ThreeSceneComponent \<Rightarrow> ThreeSceneComponent" where
  "updatePlayer sk deltaTime t s =
     (let s1 = jumpPhysics sk t (lateralMove sk deltaTime s);
          s2 = (case sk of
                  Cat \<Rightarrow> setScaleY (scaleY s1 + (1 - scaleY s1) * 10 * deltaTime) s1
                | Plane \<Rightarrow> s1);
          s3 = setPosY (playerY s2) s2
      in case sk of
           Cat \<Rightarrow> s3
         | Plane \<Rightarrow> setPropellerRotZ (propeller_rotZ (player s3) - 15 * deltaTime) s3)"


subsection \<open>Collision detection: checkCollisions, handleCrash\<close>

text \<open>
  \<^verbatim>\<open>a.intersectsBox(b)\<close> of three.js (the library is not part of the repository): two
  boxes intersect when their ranges overlap on each of the three axes.
\<close>

definition intersectsBox :: "Box3 \<Rightarrow> Box3 \<Rightarrow> bool" where
  "intersectsBox a b =
     (vx (bmax b) \<ge> vx (bmin a) \<and> vx (bmin b) \<le> vx (bmax a) \<and>
      vy (bmax b) \<ge> vy (bmin a) \<and> vy (bmin b) \<le> vy (bmax a) \<and>
      vz (bmax b) \<ge> vz (bmin a) \<and> vz (bmin b) \<le> vz (bmax a))"

text \<open>\<^verbatim>\<open>b.min.x += dx; b.max.x -= dx\<close>, and so on for the other axes.\<close>

definition shrink :: "real \<Rightarrow> real \<Rightarrow> real \<Rightarrow> Box3 \<Rightarrow> Box3" where
  "shrink dx dy dz b =
     \<lparr>bmin = vec3 (vx (bmin b) + dx) (vy (bmin b) + dy) (vz (bmin b) + dz),
      bmax = vec3 (vx (bmax b) - dx) (vy (bmax b) - dy) (vz (bmax b) - dz)\<rparr>"

definition shrinkPlayer :: "skin \<Rightarrow> Box3 \<Rightarrow> Box3" where
  "shrinkPlayer sk b = (case sk of Cat \<Rightarrow> shrink 0.4 0 0.4 b | Plane \<Rightarrow> shrink 0.3 0.2 0.2 b)"

definition shrinkObstacle :: "Box3 \<Rightarrow> Box3" where
  "shrinkObstacle b = shrink 0.2 0 0.2 b"

text \<open>
  The test one iteration of the loop of \<^verbatim>\<open>checkCollisions\<close> makes on an obstacle.
  \<open>pbox\<close> and \<open>obox\<close> stand for \<^verbatim>\<open>new THREE.Box3().setFromObject\<close> on the player and on
  an obstacle: the world-space bounding boxes three.js computes from their meshes.
  The cat skin first compares the positions, then the boxes.
\<close>

definition hitTest ::
  "skin \<Rightarrow> (Group \<Rightarrow> Box3) \<Rightarrow> (Obstacle \<Rightarrow> Box3) \<Rightarrow> Group \<Rightarrow> Obstacle \<Rightarrow> bool" where
  "hitTest sk pbox obox p obs =
     (case sk of
        Cat \<Rightarrow>
          (let distZ = \<bar>vz (oposition obs) - vz (position p)\<bar>;
               distX = \<bar>vx (oposition obs) - vx (position p)\<bar>
           in if distZ < 1.5
              then (if distX < 1.0
                    then intersectsBox (shrinkPlayer Cat (pbox p)) (shrinkObstacle (obox obs))
                    else False)
              else False)
      | Plane \<Rightarrow> intersectsBox (shrinkPlayer Plane (pbox p)) (shrinkObstacle (obox obs)))"

text \<open>
  The loop over \<^verbatim>\<open>this.obstacles\<close>: it stops at the first obstacle that passes the
  test (\<^verbatim>\<open>handleCrash(); return\<close>). The result is that obstacle, or \<open>None\<close> when the
  loop runs to its end.
\<close>

fun collisionLoop ::
  "skin \<Rightarrow> (Group \<Rightarrow> Box3) \<Rightarrow> (Obstacle \<Rightarrow> Box3) \<Rightarrow> Group \<Rightarrow> Obstacle list \<Rightarrow> Obstacle option" where
  "collisionLoop sk pbox obox p [] = None"
| "collisionLoop sk pbox obox p (obs # rest) =
     (if hitTest sk pbox obox p obs then Some obs
      else collisionLoop sk pbox obox p rest)"

definition handleCrash :: "skin \<Rightarrow> ThreeSceneComponent \<Rightarrow> ThreeSceneComponent" where
  "handleCrash sk s =
     (let s1 = s\<lparr>gameState := endGame (gameState s)\<rparr> in
      case sk of
        Cat \<Rightarrow> setPosY 0.2 (setRotX (- pi / 2) s1)
      | Plane \<Rightarrow> setPosY 0.5 (setRotZ (pi / 4) (setRotX (- pi / 4) s1)))"

definition checkCollisions ::
  "skin \<Rightarrow> (Group \<Rightarrow> Box3) \<Rightarrow> (Obstacle \<Rightarrow> Box3) \<Rightarrow> ThreeSceneComponent \<Rightarrow> ThreeSceneComponent" where
  "checkCollisions sk pbox obox s =
     (case collisionLoop sk pbox obox (player s) (obstacles s) of
        Some obs \<Rightarrow> handleCrash sk s
      | None \<Rightarrow> s)"


subsection \<open>The frame loop: animate\<close>

definition deltaTime :: real where "deltaTime = 0.016"

definition baseSpeed :: "skin \<Rightarrow> real" where
  "baseSpeed sk = (case sk of Cat \<Rightarrow> 30 | Plane \<Rightarrow> 40)"

text \<open>One obstacle's move; the cat skin also spins its first child.\<close>

definition moveObstacle :: "skin \<Rightarrow> real \<Rightarrow> Obstacle \<Rightarrow> Obstacle" where
  "moveObstacle sk frameMove obs =
     (let o1 = obs\<lparr>oposition := (oposition obs)\<lparr>vz := vz (oposition obs) + frameMove\<rparr>\<rparr> in
      case sk of
        Cat \<Rightarrow> o1\<lparr>child0_rotation :=
                    (child0_rotation o1)\<lparr>vx := vx (child0_rotation o1) + 0.02,
                                         vy := vy (child0_rotation o1) + 0.01\<rparr>\<rparr>
      | Plane \<Rightarrow> o1)"

text \<open>
  The loop \<^verbatim>\<open>for (let i = this.obstacles.length - 1; i >= 0; i--)\<close>. The first argument
  counts the iterations left, so the index of the current iteration is one below it.
  \<^verbatim>\<open>splice(i, 1)\<close> removes the element at \<open>i\<close>; the elements below \<open>i\<close> stay, so the
  index is always inside the list.
\<close>

fun moveObstacles :: "nat \<Rightarrow> skin \<Rightarrow> real \<Rightarrow> ThreeSceneComponent \<Rightarrow> ThreeSceneComponent" where
  "moveObstacles 0 sk frameMove s = s"
| "moveObstacles (Suc i) sk frameMove s =
     (let obs = moveObstacle sk frameMove (obstacles s ! i);
          s1 = s\<lparr>obstacles := (obstacles s)[i := obs]\<rparr>;
          s2 = (if vz (oposition obs) > 15
                then s1\<lparr>obstacles := take i (obstacles s1) @ drop (Suc i) (obstacles s1),
                        gameState := incrementScore 50 (gameState s1)\<rparr>
                else s1)
      in moveObstacles i sk frameMove s2)"

text \<open>The \<^verbatim>\<open>PLAYING\<close> branch of \<^verbatim>\<open>animate\<close>.\<close>

definition playingFrame ::
  "skin \<Rightarrow> (Group \<Rightarrow> Box3) \<Rightarrow> (Obstacle \<Rightarrow> Box3) \<Rightarrow> frame_input \<Rightarrow>
   ThreeSceneComponent \<Rightarrow> ThreeSceneComponent" where
  "playingFrame sk pbox obox t s =
     (let currentSpeed = baseSpeed sk * speed (gameState s);
          frameMove = currentSpeed * deltaTime;
          s1 = moveObstacles (length (obstacles s)) sk frameMove s;
          spawnDelay = obstacleSpawnRate / speed (gameState s1);
          s2 = (if now t - lastObstacleTime s1 > spawnDelay
                then (spawnObstacle sk t s1)\<lparr>lastObstacleTime := now t\<rparr>
                else s1);
          s3 = updatePlayer sk deltaTime (now t) s2
      in checkCollisions sk pbox obox s3)"

text \<open>The \<^verbatim>\<open>MENU\<close> branch: the idle hover of the player.\<close>

definition menuFrame :: "skin \<Rightarrow> real \<Rightarrow> ThreeSceneComponent \<Rightarrow> ThreeSceneComponent" where
  "menuFrame sk t s =
     (case sk of
        Cat \<Rightarrow> setRotY (sin (t * 0.001) * 0.3) (setPosY (sin (t * 0.002) * 0.5 + 1) (setPosX 0 s))
      | Plane \<Rightarrow>
          (let s1 = setRotX 0 (setRotZ (sin (t * 0.001) * 0.2)
                      (setPosY (sin (t * 0.002) * 0.5 + 1.5) (setPosX 0 s)))
           in setPropellerRotZ (propeller_rotZ (player s1) - 0.2) s1))"

text \<open>
  The synchronous reset at the head of \<^verbatim>\<open>animate\<close>, up to and including
  \<^verbatim>\<open>this.lastGameStatus = status\<close>.
\<close>

definition syncReset :: "frame_input \<Rightarrow> ThreeSceneComponent \<Rightarrow> ThreeSceneComponent" where
  "syncReset t s =
     (let st = status (gameState s);
          s1 = (if st = PLAYING \<and> lastGameStatus s \<noteq> PLAYING
                then resetScene (reset_now t) s
                else s)
      in s1\<lparr>lastGameStatus := st\<rparr>)"

definition animate ::
  "skin \<Rightarrow> (Group \<Rightarrow> Box3) \<Rightarrow> (Obstacle \<Rightarrow> Box3) \<Rightarrow> frame_input \<Rightarrow>
   ThreeSceneComponent \<Rightarrow> ThreeSceneComponent" where
  "animate sk pbox obox t s =
     (let st = status (gameState s);
          s1 = syncReset t s
      in if st = PLAYING then playingFrame sk pbox obox t s1
         else if st = MENU then menuFrame sk (now t) s1
         else s1)"


subsection \<open>The running program\<close>

text \<open>
  What can happen to the component: an animation frame, a key press, and a click on one
  of the three buttons of \<^verbatim>\<open>game-ui.component.ts\<close>. The start button is rendered only
  on the menu screen, the other two only on the game-over screen; a click on a button
  that is not rendered cannot happen and is modelled as no change.
\<close>

datatype event =
  Frame frame_input
| KeyDown string
| ClickStart
| ClickTryAgain
| ClickMainMenu

definition handle ::
  "skin \<Rightarrow> (Group \<Rightarrow> Box3) \<Rightarrow> (Obstacle \<Rightarrow> Box3) \<Rightarrow> ThreeSceneComponent \<Rightarrow> event \<Rightarrow>
   ThreeSceneComponent" where
  "handle sk pbox obox s e =
     (case e of
        Frame t \<Rightarrow> animate sk pbox obox t s
      | KeyDown key \<Rightarrow> handleKeyboardEvent sk key s
      | ClickStart \<Rightarrow>
          (if isMenu (gameState s) then s\<lparr>gameState := startGame (gameState s)\<rparr> else s)
      | ClickTryAgain \<Rightarrow>
          (if isGameOver (gameState s) then s\<lparr>gameState := startGame (gameState s)\<rparr> else s)
      | ClickMainMenu \<Rightarrow>
          (if isGameOver (gameState s) then s\<lparr>gameState := resetGame (gameState s)\<rparr> else s))"

definition run ::
  "skin \<Rightarrow> (Group \<Rightarrow> Box3) \<Rightarrow> (Obstacle \<Rightarrow> Box3) \<Rightarrow> event list \<Rightarrow> ThreeSceneComponent" where
  "run sk pbox obox evs = foldl (handle sk pbox obox) initialComponent evs"

text \<open>A sequence of lane commands: each entry is the direction passed to \<^verbatim>\<open>changeLane\<close>.\<close>

definition moves :: "skin \<Rightarrow> ThreeSceneComponent \<Rightarrow> int list \<Rightarrow> ThreeSceneComponent" where
  "moves sk s ds = foldl (\<lambda>s d. changeLane sk d s) s ds"


section \<open>Notions used to state the properties\<close>

text \<open>
  An obstacle despawns in a frame when its depth, after the frame's move, is beyond the
  threshold: the test \<^verbatim>\<open>obs.position.z > 15\<close> of the loop.
\<close>

definition despawns :: "skin \<Rightarrow> real \<Rightarrow> Obstacle \<Rightarrow> bool" where
  "despawns sk frameMove obs = (vz (oposition (moveObstacle sk frameMove obs)) > 15)"

text \<open>
  The number of obstacles of the pool that despawn in a frame taken in state \<open>s\<close>;
  the frame's move is \<^verbatim>\<open>baseSpeed * speed * deltaTime\<close>, computed before the loop.
\<close>

definition crossings :: "skin \<Rightarrow> ThreeSceneComponent \<Rightarrow> nat" where
  "crossings sk s =
     length (filter (despawns sk (baseSpeed sk * speed (gameState s) * deltaTime)) (obstacles s))"

text \<open>
  Sample geometry for concrete runs: bounding boxes of bodies that are translated with
  their group and not rotated. The player body spans 1.9 by 2.9 by 1.25 units. An
  obstacle has the box of the meshes \<^verbatim>\<open>spawnObstacle\<close> builds for its kind: the cube of
  side 1.8 standing on the floor; the octahedron of radius 1 at height 1.5 with its
  spike of length 2.5 along the depth axis; the balloon of radius 1.5 at height 2.5 over
  its basket; the cube of side 2 at height 1.5 with its stripe of side 2.1 turned by 0.5.
\<close>

definition boxAt :: "Vector3 \<Rightarrow> Vector3 \<Rightarrow> Vector3 \<Rightarrow> Box3" where
  "boxAt pos lo hi =
     \<lparr>bmin = vec3 (vx pos + vx lo) (vy pos + vy lo) (vz pos + vz lo),
      bmax = vec3 (vx pos + vx hi) (vy pos + vy hi) (vz pos + vz hi)\<rparr>"

definition samplePlayerBox :: "Group \<Rightarrow> Box3" where
  "samplePlayerBox p = boxAt (position p) (vec3 (- 0.95) 0 (- 0.7)) (vec3 0.95 2.9 0.55)"

definition sampleObstacleBox :: "Obstacle \<Rightarrow> Box3" where
  "sampleObstacleBox obs =
     (case otype obs of
        box \<Rightarrow> boxAt (oposition obs) (vec3 (- 0.9) 0 (- 0.9)) (vec3 0.9 1.8 0.9)
      | tall \<Rightarrow> boxAt (oposition obs) (vec3 (- 1) 0.5 (- 1.25)) (vec3 1 2.5 1.25)
      | balloon \<Rightarrow> boxAt (oposition obs) (vec3 (- 1.5) 0.2 (- 1.5)) (vec3 1.5 4 1.5)
      | pylon \<Rightarrow>
          (let e = 1.05 * (cos 0.5 + sin 0.5)
           in boxAt (oposition obs) (vec3 (- e) 0.5 (- e)) (vec3 e 2.5 e)))"

definition sampleFrame :: "real \<Rightarrow> frame_input" where
  "sampleFrame t = \<lparr>now = t, reset_now = t, lane_draw = 0.5, type_draw = 0.7, tilt_draw = 0\<rparr>"

definition obstacleAt :: "real \<Rightarrow> real \<Rightarrow> Obstacle" where
  "obstacleAt a c = \<lparr>otype = box, oposition = vec3 a 0 c, child0_rotation = vec3 0 0 0\<rparr>"

text \<open>A running session with one obstacle about to pass the despawn threshold.\<close>

definition passingState :: ThreeSceneComponent where
  "passingState =
     initialComponent\<lparr>gameState := startGame initialGameState, lastGameStatus := PLAYING,
                      obstacles := [obstacleAt 3 14.9]\<rparr>"



text \<open>A short session: the start button, then one frame.\<close>

definition sampleSession :: "event list" where
  "sampleSession = [ClickStart, Frame (sampleFrame 0)]"


text \<open>
  Repeated player ticks: \<open>advance sk dt clock n\<close> runs \<^verbatim>\<open>updatePlayer\<close> \<open>n\<close> times with
  the fixed \<open>dt\<close>; \<open>clock i\<close> is the wall-clock time read by tick \<open>i\<close>.
\<close>

primrec advance ::
  "skin \<Rightarrow> real \<Rightarrow> (nat \<Rightarrow> real) \<Rightarrow> nat \<Rightarrow> ThreeSceneComponent \<Rightarrow> ThreeSceneComponent" where
  "advance sk dt clock 0 s = s"
| "advance sk dt clock (Suc n) s = updatePlayer sk dt (clock n) (advance sk dt clock n s)"

text \<open>The player is back on the ground, at rest.\<close>

definition landed :: "ThreeSceneComponent \<Rightarrow> bool" where
  "landed s = (playerY s = 0 \<and> posY s = 0 \<and> \<not> isJumping s \<and> jumpVelocity s = 0)"

text \<open>
  The vertical position is never negative, and at most 0.2 (the amplitude of the idle
  bob) when the player is not jumping.
\<close>

definition heightOk :: "ThreeSceneComponent \<Rightarrow> bool" where
  "heightOk s = (0 \<le> playerY s \<and> (isJumping s \<or> playerY s \<le> 0.2))"


text \<open>
  The position test the cat skin makes before it compares boxes: the obstacle is within
  1.5 of the player in depth and within 1.0 laterally.
\<close>

definition nearPlayer :: "Group \<Rightarrow> Obstacle \<Rightarrow> bool" where
  "nearPlayer p obs =
     (\<bar>vz (oposition obs) - vz (position p)\<bar> < 1.5 \<and> \<bar>vx (oposition obs) - vx (position p)\<bar> < 1.0)"

text \<open>
  Two running sessions with one obstacle in the player's lane: at the player's depth,
  and one frame's move before it.
\<close>

definition hitState :: ThreeSceneComponent where
  "hitState =
     initialComponent\<lparr>gameState := startGame initialGameState, lastGameStatus := PLAYING,
                      obstacles := [obstacleAt 0 0]\<rparr>"

definition approachState :: ThreeSceneComponent where
  "approachState =
     initialComponent\<lparr>gameState := startGame initialGameState, lastGameStatus := PLAYING,
                      obstacles := [obstacleAt 0 (- 0.48)]\<rparr>"


text \<open>
  Sample geometry for a leaning player: the body box above, turned about the depth axis
  through the group's origin by \<^verbatim>\<open>rotation.z\<close> and then translated. The lean angle of
  the two sample players has sine 7/25 and cosine 24/25. The first stands at the origin
  and leans one way, the second stands 0.812 to the side and leans the other way by the
  same angle: their bounding boxes coincide.
\<close>

definition leanAngle :: real where
  "leanAngle = arcsin (7 / 25)"

definition leaningPlayerBox :: "Group \<Rightarrow> Box3" where
  "leaningPlayerBox p =
     (let c = cos (vz (rotation p)); s = sin (vz (rotation p));
          x1 = - 0.95 * c; x2 = - 0.95 * c - 2.9 * s; x3 = 0.95 * c; x4 = 0.95 * c - 2.9 * s;
          y1 = - 0.95 * s; y2 = - 0.95 * s + 2.9 * c; y3 = 0.95 * s; y4 = 0.95 * s + 2.9 * c
      in boxAt (position p)
           (vec3 (min (min x1 x2) (min x3 x4)) (min (min y1 y2) (min y3 y4)) (- 0.7))
           (vec3 (max (max x1 x2) (max x3 x4)) (max (max y1 y2) (max y3 y4)) 0.55))"

definition leaningLeft :: Group where
  "leaningLeft =
     \<lparr>position = vec3 0 0 0, rotation = vec3 0 0 leanAngle, scale = vec3 1 1 1,
      propeller_rotZ = 0\<rparr>"

definition leaningRight :: Group where
  "leaningRight =
     \<lparr>position = vec3 (- 0.812) 0 0, rotation = vec3 0 0 (- leanAngle), scale = vec3 1 1 1,
      propeller_rotZ = 0\<rparr>"


section \<open>Properties of the session state\<close>

text \<open>
  C10: whenever the status is not \<open>PLAYING\<close>, \<open>incrementScore\<close> leaves the whole
  session state unchanged: neither score nor speed is modified.
\<close>

theorem incrementScore_not_playing_unchanged:
  "status g \<noteq> PLAYING \<Longrightarrow> incrementScore amount g = g"
  by (simp add: incrementScore_def isPlaying_def)

theorem incrementScore_not_playing_unchanged_witness:
  "status (endGame (startGame initialGameState)) \<noteq> PLAYING \<and>
   incrementScore 50 (endGame (startGame initialGameState)) = endGame (startGame initialGameState)"
  using incrementScore_not_playing_unchanged [of "endGame (startGame initialGameState)" 50]
  by (simp add: endGame_def startGame_def initialGameState_def)


section \<open>Properties of the commands\<close>

text \<open>
  C5: a jump issued while the player is airborne leaves the state unchanged, the vertical
  velocity in particular; a jump issued while grounded sets the vertical velocity to
  \<open>jumpForce\<close> and makes the player airborne, and changes nothing else.
\<close>

theorem jump_airborne_or_grounded:
  "(isJumping s \<longrightarrow> jump s = s \<and> jumpVelocity (jump s) = jumpVelocity s) \<and>
   (\<not> isJumping s \<longrightarrow>
      jumpVelocity (jump s) = jumpForce \<and> isJumping (jump s) \<and>
      jump s = s\<lparr>isJumping := True, jumpVelocity := jumpForce\<rparr>)"
  by (simp add: jump_def)

theorem jump_airborne_or_grounded_witness:
  "isJumping (jump initialComponent) \<and> \<not> isJumping initialComponent \<and>
   jump (jump initialComponent) = jump initialComponent \<and>
   jumpVelocity (jump initialComponent) = jumpForce"
  using jump_airborne_or_grounded [of "jump initialComponent"]
        jump_airborne_or_grounded [of initialComponent]
  by (simp add: initialComponent_def)

lemma changeLane_lane_range:
  "currentLane s \<in> {-1, 0, 1} \<Longrightarrow> currentLane (changeLane sk d s) \<in> {-1, 0, 1}"
  by (cases sk) (auto simp: changeLane_def Let_def)

lemma moves_lane_range:
  "currentLane s \<in> {-1, 0, 1} \<Longrightarrow> currentLane (moves sk s ds) \<in> {-1, 0, 1}"
  unfolding moves_def
proof (induction ds arbitrary: s)
  case Nil
  then show ?case by simp
next
  case (Cons d ds)
  have "currentLane (changeLane sk d s) \<in> {-1, 0, 1}"
    using Cons.prems by (rule changeLane_lane_range)
  then show ?case using Cons.IH by simp
qed

lemma changeLane_step:
  "d = -1 \<or> d = 1 \<Longrightarrow>
   (if -1 \<le> currentLane s + d \<and> currentLane s + d \<le> 1
    then currentLane (changeLane sk d s) = currentLane s + d \<and>
         \<bar>currentLane (changeLane sk d s) - currentLane s\<bar> = 1 \<and>
         targetX (changeLane sk d s) = of_int (currentLane s + d) * laneWidth
    else changeLane sk d s = s)"
  by (cases sk) (auto simp: changeLane_def Let_def)

text \<open>
  C4: for every sequence of left and right commands applied from lane 0, the lane index
  stays within \<open>{-1, 0, 1}\<close>; each accepted command changes it by exactly the
  direction (\<open>+1\<close> or \<open>-1\<close>) and sets the target offset to the lane times the lane
  width; a command that would leave the range is a no-op that changes neither the lane
  nor the target offset (nor anything else).
\<close>

theorem lane_stays_in_range:
  assumes "currentLane s = 0" and "\<forall>d \<in> set ds. d = -1 \<or> d = 1"
  shows "currentLane (moves sk s ds) \<in> {-1, 0, 1} \<and>
         (\<forall>k < length ds.
            let b = moves sk s (take k ds); d = ds ! k; a = changeLane sk d b in
            currentLane b \<in> {-1, 0, 1} \<and>
            (if -1 \<le> currentLane b + d \<and> currentLane b + d \<le> 1
             then currentLane a = currentLane b + d \<and>
                  targetX a = of_int (currentLane a) * laneWidth
             else a = b \<and> currentLane a = currentLane b \<and> targetX a = targetX b) \<and>
            (currentLane b = 1 \<and> d = 1 \<longrightarrow> a = b) \<and>
            (currentLane b = -1 \<and> d = -1 \<longrightarrow> a = b))"
proof (intro conjI allI impI)
  have r: "currentLane (moves sk s xs) \<in> {-1, 0, 1}" for xs
    using assms(1) by (intro moves_lane_range) simp
  show "currentLane (moves sk s ds) \<in> {-1, 0, 1}" by (rule r)
  fix k assume k: "k < length ds"
  define b where "b = moves sk s (take k ds)"
  define d where "d = ds ! k"
  have d: "d = -1 \<or> d = 1"
    using assms(2) k unfolding d_def by (meson nth_mem)
  have b: "currentLane b \<in> {-1, 0, 1}" unfolding b_def by (rule r)
  have st: "if -1 \<le> currentLane b + d \<and> currentLane b + d \<le> 1
    then currentLane (changeLane sk d b) = currentLane b + d \<and>
         \<bar>currentLane (changeLane sk d b) - currentLane b\<bar> = 1 \<and>
         targetX (changeLane sk d b) = of_int (currentLane b + d) * laneWidth
    else changeLane sk d b = b"
    using d by (rule changeLane_step)
  have "currentLane b \<in> {-1, 0, 1} \<and>
        (if -1 \<le> currentLane b + d \<and> currentLane b + d \<le> 1
         then currentLane (changeLane sk d b) = currentLane b + d \<and>
              targetX (changeLane sk d b) = of_int (currentLane (changeLane sk d b)) * laneWidth
         else changeLane sk d b = b \<and> currentLane (changeLane sk d b) = currentLane b \<and>
              targetX (changeLane sk d b) = targetX b) \<and>
        (currentLane b = 1 \<and> d = 1 \<longrightarrow> changeLane sk d b = b) \<and>
        (currentLane b = -1 \<and> d = -1 \<longrightarrow> changeLane sk d b = b)"
    using b st by (auto split: if_splits)
  then show "let b = moves sk s (take k ds); d = ds ! k; a = changeLane sk d b in
            currentLane b \<in> {-1, 0, 1} \<and>
            (if -1 \<le> currentLane b + d \<and> currentLane b + d \<le> 1
             then currentLane a = currentLane b + d \<and>
                  targetX a = of_int (currentLane a) * laneWidth
             else a = b \<and> currentLane a = currentLane b \<and> targetX a = targetX b) \<and>
            (currentLane b = 1 \<and> d = 1 \<longrightarrow> a = b) \<and>
            (currentLane b = -1 \<and> d = -1 \<longrightarrow> a = b)"
    unfolding b_def d_def Let_def .
qed

theorem lane_stays_in_range_witness:
  "currentLane initialComponent = 0 \<and>
   currentLane (moves Cat initialComponent [1, 1, -1]) \<in> {-1, 0, 1} \<and>
   changeLane Cat 1 (moves Cat initialComponent (take 1 [1, 1, -1])) =
     moves Cat initialComponent (take 1 [1, 1, -1])"
proof -
  have h1: "currentLane initialComponent = 0" by (simp add: initialComponent_def)
  have h2: "\<forall>d \<in> set [1, 1, -1::int]. d = -1 \<or> d = 1" by simp
  have l: "currentLane (moves Cat initialComponent (take 1 [1, 1, -1])) = 1"
    by (simp add: moves_def changeLane_def initialComponent_def)
  from lane_stays_in_range [OF h1 h2, of Cat] l h1 h2 show ?thesis
    by (auto simp: Let_def)
qed


section \<open>The frame loop and the reachable states\<close>

lemma despawns_iff: "despawns sk fm obs \<longleftrightarrow> vz (oposition obs) + fm > 15"
  by (cases sk) (simp_all add: despawns_def moveObstacle_def)

lemma incrementScore_funpow:
  "status g = PLAYING \<Longrightarrow>
   (incrementScore a ^^ k) g =
     g\<lparr>score := score g + of_nat k * a, speed := ((\<lambda>v. min (v + 0.001) 2.5) ^^ k) (speed g)\<rparr>"
proof (induction k)
  case 0
  then show ?case by simp
next
  case (Suc k)
  then show ?case
    by (simp add: incrementScore_def isPlaying_def algebra_simps)
qed

lemma moveObstacles_prefix:
  "i \<le> length (obstacles s) \<Longrightarrow>
   moveObstacles i sk fm s =
     s\<lparr>obstacles :=
         filter (\<lambda>obs. \<not> vz (oposition obs) > 15) (map (moveObstacle sk fm) (take i (obstacles s)))
         @ drop i (obstacles s),
       gameState :=
         (incrementScore 50 ^^ length (filter (despawns sk fm) (take i (obstacles s))))
           (gameState s)\<rparr>"
proof (induction i arbitrary: s)
  case 0
  then show ?case by simp
next
  case (Suc i)
  let ?xs = "obstacles s"
  let ?o = "moveObstacle sk fm (?xs ! i)"
  from Suc.prems have i: "i < length ?xs" by simp
  have tk: "take (Suc i) ?xs = take i ?xs @ [?xs ! i]"
    using i by (simp add: take_Suc_conv_app_nth)
  show ?case
  proof (cases "vz (oposition ?o) > 15")
    case True
    let ?s2 = "s\<lparr>obstacles := take i ?xs @ drop (Suc i) ?xs,
                  gameState := incrementScore 50 (gameState s)\<rparr>"
    have step: "moveObstacles (Suc i) sk fm s = moveObstacles i sk fm ?s2"
      using True i by (simp add: Let_def)
    have len: "i \<le> length (obstacles ?s2)" using i by simp
    have d: "despawns sk fm (?xs ! i)" using True by (simp add: despawns_def)
    show ?thesis
      unfolding step Suc.IH [OF len] tk
      using i True d by (simp add: funpow_swap1 min_def)
  next
    case False
    let ?s2 = "s\<lparr>obstacles := ?xs[i := ?o]\<rparr>"
    have step: "moveObstacles (Suc i) sk fm s = moveObstacles i sk fm ?s2"
      using False i by (simp add: Let_def)
    have len: "i \<le> length (obstacles ?s2)" using i by simp
    have d: "\<not> despawns sk fm (?xs ! i)" using False by (simp add: despawns_def)
    show ?thesis
      unfolding step Suc.IH [OF len] tk
      using i False d by (simp add: drop_update_cancel Cons_nth_drop_Suc upd_conv_take_nth_drop)
  qed
qed

lemma moveObstacles_all:
  "moveObstacles (length (obstacles s)) sk fm s =
     s\<lparr>obstacles :=
         filter (\<lambda>obs. \<not> vz (oposition obs) > 15) (map (moveObstacle sk fm) (obstacles s)),
       gameState :=
         (incrementScore 50 ^^ length (filter (despawns sk fm) (obstacles s))) (gameState s)\<rparr>"
  using moveObstacles_prefix [of "length (obstacles s)" s sk fm] by simp


lemma speedUp_funpow_le: "v \<le> 2.5 \<Longrightarrow> ((\<lambda>v::real. min (v + 0.001) 2.5) ^^ k) v \<le> 2.5"
  by (induction k) (simp_all add: min_def)

lemma speedUp_funpow_ge: "(v::real) \<le> 2.5 \<Longrightarrow> v \<le> ((\<lambda>v. min (v + 0.001) 2.5) ^^ k) v"
proof (induction k)
  case 0
  then show ?case by simp
next
  case (Suc k)
  then show ?case by (simp add: min_def)
qed

lemma gameState_syncReset [simp]: "gameState (syncReset t s) = gameState s"
  by (simp add: syncReset_def resetScene_def Let_def)

lemma lastGameStatus_syncReset [simp]: "lastGameStatus (syncReset t s) = status (gameState s)"
  by (simp add: syncReset_def Let_def)

lemma gameState_spawnObstacle [simp]: "gameState (spawnObstacle sk t s) = gameState s"
  by (cases sk) (simp_all add: spawnObstacle_def Let_def)

lemma lastGameStatus_spawnObstacle [simp]:
  "lastGameStatus (spawnObstacle sk t s) = lastGameStatus s"
  by (cases sk) (simp_all add: spawnObstacle_def Let_def)

lemma updatePlayer_frame [simp]:
  "gameState (updatePlayer sk dt t s) = gameState s"
  "lastGameStatus (updatePlayer sk dt t s) = lastGameStatus s"
  "obstacles (updatePlayer sk dt t s) = obstacles s"
  "currentLane (updatePlayer sk dt t s) = currentLane s"
  "targetX (updatePlayer sk dt t s) = targetX s"
  by (cases sk; simp add: updatePlayer_def jumpPhysics_def lateralMove_def Let_def)+

lemma handleCrash_frame [simp]:
  "gameState (handleCrash sk s) = endGame (gameState s)"
  "lastGameStatus (handleCrash sk s) = lastGameStatus s"
  "obstacles (handleCrash sk s) = obstacles s"
  "currentLane (handleCrash sk s) = currentLane s"
  "targetX (handleCrash sk s) = targetX s"
  by (cases sk; simp add: handleCrash_def Let_def)+

lemma checkCollisions_frame [simp]:
  "score (gameState (checkCollisions sk pb ob s)) = score (gameState s)"
  "speed (gameState (checkCollisions sk pb ob s)) = speed (gameState s)"
  "lastGameStatus (checkCollisions sk pb ob s) = lastGameStatus s"
  "obstacles (checkCollisions sk pb ob s) = obstacles s"
  "currentLane (checkCollisions sk pb ob s) = currentLane s"
  "targetX (checkCollisions sk pb ob s) = targetX s"
  by (simp_all add: checkCollisions_def endGame_def split: option.splits)

lemma checkCollisions_status:
  "status (gameState (checkCollisions sk pb ob s)) =
     (case collisionLoop sk pb ob (player s) (obstacles s) of
        None \<Rightarrow> status (gameState s) | Some obs \<Rightarrow> GAME_OVER)"
  by (simp add: checkCollisions_def endGame_def split: option.splits)

lemma menuFrame_frame [simp]:
  "gameState (menuFrame sk t s) = gameState s"
  "lastGameStatus (menuFrame sk t s) = lastGameStatus s"
  by (cases sk; simp add: menuFrame_def)+

lemma playingFrame_score_speed:
  assumes "status (gameState s) = PLAYING"
  shows "score (gameState (playingFrame sk pb ob t s)) =
           score (gameState s) + 50 * of_nat (crossings sk s)"
    and "speed (gameState (playingFrame sk pb ob t s)) =
           ((\<lambda>v. min (v + 0.001) 2.5) ^^ crossings sk s) (speed (gameState s))"
    and "lastGameStatus (playingFrame sk pb ob t s) = lastGameStatus s"
    and "status (gameState (playingFrame sk pb ob t s)) \<in> {PLAYING, GAME_OVER}"
  using assms(1) unfolding crossings_def
  by (simp_all add: playingFrame_def Let_def moveObstacles_all incrementScore_funpow
        checkCollisions_status split: option.splits)

lemma changeLane_frame [simp]:
  "gameState (changeLane sk d s) = gameState s"
  "lastGameStatus (changeLane sk d s) = lastGameStatus s"
  "obstacles (changeLane sk d s) = obstacles s"
  by (cases sk; simp add: changeLane_def Let_def)+

lemma jump_frame [simp]:
  "gameState (jump s) = gameState s"
  "lastGameStatus (jump s) = lastGameStatus s"
  "obstacles (jump s) = obstacles s"
  by (simp_all add: jump_def)

lemma handleKeyboardEvent_frame [simp]:
  "gameState (handleKeyboardEvent sk key s) = gameState s"
  "lastGameStatus (handleKeyboardEvent sk key s) = lastGameStatus s"
  "obstacles (handleKeyboardEvent sk key s) = obstacles s"
  by (simp_all add: handleKeyboardEvent_def)

lemma animate_playing:
  assumes "status (gameState s) = PLAYING"
  shows "score (gameState (animate sk pb ob t s)) =
           score (gameState s) + 50 * of_nat (crossings sk (syncReset t s))"
    and "speed (gameState (animate sk pb ob t s)) =
           ((\<lambda>v. min (v + 0.001) 2.5) ^^ crossings sk (syncReset t s)) (speed (gameState s))"
    and "lastGameStatus (animate sk pb ob t s) = PLAYING"
    and "status (gameState (animate sk pb ob t s)) \<in> {PLAYING, GAME_OVER}"
proof -
  have p: "status (gameState (syncReset t s)) = PLAYING" using assms by simp
  have a: "animate sk pb ob t s = playingFrame sk pb ob t (syncReset t s)"
    using assms by (simp add: animate_def Let_def)
  show "score (gameState (animate sk pb ob t s)) =
           score (gameState s) + 50 * of_nat (crossings sk (syncReset t s))"
    unfolding a using playingFrame_score_speed(1) [OF p] by simp
  show "speed (gameState (animate sk pb ob t s)) =
           ((\<lambda>v. min (v + 0.001) 2.5) ^^ crossings sk (syncReset t s)) (speed (gameState s))"
    unfolding a using playingFrame_score_speed(2) [OF p] by simp
  show "lastGameStatus (animate sk pb ob t s) = PLAYING"
    unfolding a using playingFrame_score_speed(3) [OF p] assms by simp
  show "status (gameState (animate sk pb ob t s)) \<in> {PLAYING, GAME_OVER}"
    unfolding a using playingFrame_score_speed(4) [OF p] .
qed

lemma animate_not_playing:
  assumes "status (gameState s) \<noteq> PLAYING"
  shows "gameState (animate sk pb ob t s) = gameState s"
    and "lastGameStatus (animate sk pb ob t s) = status (gameState s)"
  using assms by (simp_all add: animate_def Let_def)

lemma handle_speed_range:
  assumes "1 \<le> speed (gameState s)" and "speed (gameState s) \<le> 2.5"
  shows "1 \<le> speed (gameState (handle sk pb ob s e)) \<and>
         speed (gameState (handle sk pb ob s e)) \<le> 2.5"
proof (cases e)
  case (Frame t)
  show ?thesis
  proof (cases "status (gameState s) = PLAYING")
    case True
    have "speed (gameState s) \<le> speed (gameState (animate sk pb ob t s))"
      unfolding animate_playing(2) [OF True] using assms(2) by (rule speedUp_funpow_ge)
    moreover have "speed (gameState (animate sk pb ob t s)) \<le> 2.5"
      unfolding animate_playing(2) [OF True] using assms(2) by (rule speedUp_funpow_le)
    ultimately show ?thesis using assms Frame by (simp add: handle_def)
  next
    case False
    then show ?thesis using assms Frame by (simp add: handle_def animate_not_playing)
  qed
next
  case (KeyDown key)
  then show ?thesis using assms by (simp add: handle_def)
next
  case ClickStart
  then show ?thesis using assms by (simp add: handle_def startGame_def)
next
  case ClickTryAgain
  then show ?thesis using assms by (simp add: handle_def startGame_def)
next
  case ClickMainMenu
  then show ?thesis using assms by (simp add: handle_def resetGame_def)
qed

lemma run_snoc: "run sk pb ob (evs @ [e]) = handle sk pb ob (run sk pb ob evs) e"
  by (simp add: run_def)

lemma run_speed_range:
  "1 \<le> speed (gameState (run sk pb ob evs)) \<and> speed (gameState (run sk pb ob evs)) \<le> 2.5"
proof (induction evs rule: rev_induct)
  case Nil
  then show ?case by (simp add: run_def initialComponent_def initialGameState_def)
next
  case (snoc e evs)
  then show ?case unfolding run_snoc by (intro handle_speed_range) simp_all
qed

lemma handle_speed_mono:
  assumes "status (gameState s) = PLAYING" and "speed (gameState s) \<le> 2.5"
  shows "speed (gameState s) \<le> speed (gameState (handle sk pb ob s e))"
proof (cases e)
  case (Frame t)
  have "speed (gameState s) \<le> speed (gameState (animate sk pb ob t s))"
    unfolding animate_playing(2) [OF assms(1)] using assms(2) by (rule speedUp_funpow_ge)
  then show ?thesis using Frame by (simp add: handle_def)
next
  case (KeyDown key)
  then show ?thesis by (simp add: handle_def)
next
  case ClickStart
  then show ?thesis using assms by (simp add: handle_def isMenu_def)
next
  case ClickTryAgain
  then show ?thesis using assms by (simp add: handle_def isGameOver_def)
next
  case ClickMainMenu
  then show ?thesis using assms by (simp add: handle_def isGameOver_def)
qed

lemma handle_fresh_start:
  assumes "status (gameState s) = PLAYING \<and> lastGameStatus s \<noteq> PLAYING \<longrightarrow>
             score (gameState s) = 0 \<and> speed (gameState s) = 1"
    and "status (gameState (handle sk pb ob s e)) = PLAYING"
    and "lastGameStatus (handle sk pb ob s e) \<noteq> PLAYING"
  shows "score (gameState (handle sk pb ob s e)) = 0 \<and> speed (gameState (handle sk pb ob s e)) = 1"
proof (cases e)
  case (Frame t)
  show ?thesis
  proof (cases "status (gameState s) = PLAYING")
    case True
    then show ?thesis using assms(3) Frame by (simp add: handle_def animate_playing(3))
  next
    case False
    then show ?thesis using assms(2) Frame by (simp add: handle_def animate_not_playing)
  qed
next
  case (KeyDown key)
  then show ?thesis using assms by (simp add: handle_def)
next
  case ClickStart
  then show ?thesis using assms by (simp add: handle_def startGame_def split: if_splits)
next
  case ClickTryAgain
  then show ?thesis using assms by (simp add: handle_def startGame_def split: if_splits)
next
  case ClickMainMenu
  then show ?thesis using assms
    by (simp add: handle_def resetGame_def isGameOver_def split: if_splits)
qed

lemma run_fresh_start:
  "status (gameState (run sk pb ob evs)) = PLAYING \<Longrightarrow>
   lastGameStatus (run sk pb ob evs) \<noteq> PLAYING \<Longrightarrow>
   score (gameState (run sk pb ob evs)) = 0 \<and> speed (gameState (run sk pb ob evs)) = 1"
proof (induction evs rule: rev_induct)
  case Nil
  then show ?case by (simp add: run_def initialComponent_def initialGameState_def)
next
  case (snoc e evs)
  show ?case
    unfolding run_snoc
    by (rule handle_fresh_start) (use snoc in \<open>simp_all add: run_snoc\<close>)
qed

lemma spawnObstacle_obstacles:
  "obs \<in> set (obstacles (spawnObstacle sk t s)) \<Longrightarrow>
   obs \<in> set (obstacles s) \<or> vz (oposition obs) = spawnZ sk"
  by (cases sk) (auto simp: spawnObstacle_def Let_def vec3_def split: if_splits)

lemma playingFrame_pool_bound:
  assumes "obs \<in> set (obstacles (playingFrame sk pb ob t s))"
  shows "vz (oposition obs) \<le> 15"
proof -
  let ?fm = "baseSpeed sk * speed (gameState s) * deltaTime"
  let ?s1 = "moveObstacles (length (obstacles s)) sk ?fm s"
  have kept: "x \<in> set (obstacles ?s1) \<Longrightarrow> vz (oposition x) \<le> 15" for x
    by (simp add: moveObstacles_all)
  have sp: "spawnZ sk \<le> 15" by (cases sk) (simp_all add: spawnZ_def)
  from assms have "obs \<in> set (obstacles ?s1) \<or> obs \<in> set (obstacles (spawnObstacle sk t ?s1))"
    by (simp add: playingFrame_def Let_def split: if_splits)
  then show ?thesis using kept sp spawnObstacle_obstacles [of obs sk t ?s1] by auto
qed

text \<open>
  C2: in a frame taken while \<open>PLAYING\<close>, the loop moves every obstacle, removes from
  the pool exactly those whose depth is then beyond 15, and for each of them adds 50 to
  the score and replaces the speed by \<open>min (speed + 0.001) 2.5\<close>; the whole frame
  changes score and speed in no other way and leaves no obstacle beyond 15 in the pool.
  After any sequence of events the speed is at most 2.5.
\<close>

theorem despawn_awards_score_and_speed:
  "(status (gameState s) = PLAYING \<longrightarrow>
      moveObstacles (length (obstacles s)) sk fm s =
        s\<lparr>obstacles :=
            filter (\<lambda>obs. \<not> vz (oposition obs) > 15) (map (moveObstacle sk fm) (obstacles s)),
          gameState :=
            (gameState s)
              \<lparr>score := score (gameState s)
                         + of_nat (length (filter (despawns sk fm) (obstacles s))) * 50,
               speed := ((\<lambda>v. min (v + 0.001) 2.5)
                           ^^ length (filter (despawns sk fm) (obstacles s)))
                          (speed (gameState s))\<rparr>\<rparr>) \<and>
   (status (gameState s) = PLAYING \<longrightarrow>
      score (gameState (animate sk pb ob t s)) =
        score (gameState s) + 50 * of_nat (crossings sk (syncReset t s)) \<and>
      speed (gameState (animate sk pb ob t s)) =
        ((\<lambda>v. min (v + 0.001) 2.5) ^^ crossings sk (syncReset t s)) (speed (gameState s)) \<and>
      (\<forall>obs \<in> set (obstacles (animate sk pb ob t s)). vz (oposition obs) \<le> 15)) \<and>
   speed (gameState (run sk pb ob evs)) \<le> 2.5"
proof (intro conjI impI ballI)
  assume p: "status (gameState s) = PLAYING"
  show "moveObstacles (length (obstacles s)) sk fm s =
        s\<lparr>obstacles :=
            filter (\<lambda>obs. \<not> vz (oposition obs) > 15) (map (moveObstacle sk fm) (obstacles s)),
          gameState :=
            (gameState s)
              \<lparr>score := score (gameState s)
                         + of_nat (length (filter (despawns sk fm) (obstacles s))) * 50,
               speed := ((\<lambda>v. min (v + 0.001) 2.5)
                           ^^ length (filter (despawns sk fm) (obstacles s)))
                          (speed (gameState s))\<rparr>\<rparr>"
    unfolding moveObstacles_all incrementScore_funpow [OF p] ..
  show "score (gameState (animate sk pb ob t s)) =
        score (gameState s) + 50 * of_nat (crossings sk (syncReset t s))"
    using p by (rule animate_playing(1))
  show "speed (gameState (animate sk pb ob t s)) =
        ((\<lambda>v. min (v + 0.001) 2.5) ^^ crossings sk (syncReset t s)) (speed (gameState s))"
    using p by (rule animate_playing(2))
  fix obs assume "obs \<in> set (obstacles (animate sk pb ob t s))"
  then have "obs \<in> set (obstacles (playingFrame sk pb ob t (syncReset t s)))"
    using p by (simp add: animate_def Let_def)
  then show "vz (oposition obs) \<le> 15" by (rule playingFrame_pool_bound)
next
  show "speed (gameState (run sk pb ob evs)) \<le> 2.5"
    using run_speed_range [of sk pb ob evs] by simp
qed

theorem despawn_awards_score_and_speed_witness:
  "status (gameState passingState) = PLAYING \<and>
   score (gameState (animate Cat samplePlayerBox sampleObstacleBox (sampleFrame 0) passingState)) = 50 \<and>
   speed (gameState (animate Cat samplePlayerBox sampleObstacleBox (sampleFrame 0) passingState)) = 1.001"
proof -
  have p: "status (gameState passingState) = PLAYING"
    by (simp add: passingState_def startGame_def)
  have c: "crossings Cat (syncReset (sampleFrame 0) passingState) = 1"
    by (simp add: crossings_def syncReset_def passingState_def startGame_def Let_def
        initialComponent_def initialGameState_def despawns_iff obstacleAt_def vec3_def
        baseSpeed_def deltaTime_def)
  have s0: "score (gameState passingState) = 0" "speed (gameState passingState) = 1"
    by (simp_all add: passingState_def startGame_def)
  from despawn_awards_score_and_speed
         [of passingState Cat 0 samplePlayerBox sampleObstacleBox "sampleFrame 0" "[]"]
  show ?thesis using p c s0 by simp
qed

lemma incrementScore_speed_ge_one:
  "1 \<le> speed g \<Longrightarrow> 1 \<le> speed (incrementScore a g)"
  by (simp add: incrementScore_def)

lemma incrementScore_funpow_speed_ge_one:
  "1 \<le> speed g \<Longrightarrow> 1 \<le> speed ((incrementScore a ^^ k) g)"
  by (induction k) (simp_all add: incrementScore_speed_ge_one)

lemma run_speed_mono:
  "(\<forall>k < length evs'. status (gameState (run sk pb ob (evs @ take k evs'))) = PLAYING) \<Longrightarrow>
   speed (gameState (run sk pb ob evs)) \<le> speed (gameState (run sk pb ob (evs @ evs')))"
proof (induction evs' rule: rev_induct)
  case Nil
  then show ?case by simp
next
  case (snoc e es)
  have "\<forall>k < length es. status (gameState (run sk pb ob (evs @ take k es))) = PLAYING"
  proof (intro allI impI)
    fix k assume "k < length es"
    then show "status (gameState (run sk pb ob (evs @ take k es))) = PLAYING"
      using snoc.prems [rule_format, of k] by simp
  qed
  then have ih: "speed (gameState (run sk pb ob evs)) \<le> speed (gameState (run sk pb ob (evs @ es)))"
    by (rule snoc.IH)
  have p: "status (gameState (run sk pb ob (evs @ es))) = PLAYING"
    using snoc.prems [rule_format, of "length es"] by simp
  have "speed (gameState (run sk pb ob (evs @ es)))
          \<le> speed (gameState (handle sk pb ob (run sk pb ob (evs @ es)) e))"
    using p run_speed_range [of sk pb ob "evs @ es"] by (intro handle_speed_mono) simp_all
  then show ?case using ih by (simp add: run_snoc [symmetric])
qed

text \<open>
  C3: in every state the program reaches, the speed lies in \<open>[1, 2.5]\<close>; over any
  sequence of events each of which is taken while the status is \<open>PLAYING\<close>, the
  speed does not decrease. The lower bound holds at every place that writes the speed
  (the initial value, \<open>startGame\<close>, \<open>incrementScore\<close>; \<open>endGame\<close> and
  \<open>resetGame\<close> leave it alone), so the divisor of the spawn delay, the speed read
  after the obstacle loop of a frame, is at least 1.
\<close>

theorem speed_within_range_and_monotone:
  "1 \<le> speed (gameState (run sk pb ob evs)) \<and>
   speed (gameState (run sk pb ob evs)) \<le> 2.5 \<and>
   ((\<forall>k < length evs'. status (gameState (run sk pb ob (evs @ take k evs'))) = PLAYING) \<longrightarrow>
      speed (gameState (run sk pb ob evs)) \<le> speed (gameState (run sk pb ob (evs @ evs')))) \<and>
   speed initialGameState = 1 \<and>
   speed (startGame g) = 1 \<and>
   (1 \<le> speed g \<longrightarrow> 1 \<le> speed (incrementScore a g)) \<and>
   speed (endGame g) = speed g \<and>
   speed (resetGame g) = speed g \<and>
   1 \<le> speed (gameState (moveObstacles (length (obstacles (syncReset t (run sk pb ob evs)))) sk fm
                             (syncReset t (run sk pb ob evs))))"
proof (intro conjI impI)
  show "1 \<le> speed (gameState (run sk pb ob evs))"
    using run_speed_range [of sk pb ob evs] by simp
  show "speed (gameState (run sk pb ob evs)) \<le> 2.5"
    using run_speed_range [of sk pb ob evs] by simp
  show "speed (gameState (run sk pb ob evs)) \<le> speed (gameState (run sk pb ob (evs @ evs')))"
    if "\<forall>k < length evs'. status (gameState (run sk pb ob (evs @ take k evs'))) = PLAYING"
    using that by (rule run_speed_mono)
  show "speed initialGameState = 1" by (simp add: initialGameState_def)
  show "speed (startGame g) = 1" by (simp add: startGame_def)
  show "1 \<le> speed (incrementScore a g)" if "1 \<le> speed g"
    using that by (rule incrementScore_speed_ge_one)
  show "speed (endGame g) = speed g" by (simp add: endGame_def)
  show "speed (resetGame g) = speed g" by (simp add: resetGame_def)
  have "1 \<le> speed (gameState (run sk pb ob evs))"
    using run_speed_range [of sk pb ob evs] by simp
  then show "1 \<le> speed (gameState (moveObstacles (length (obstacles (syncReset t (run sk pb ob evs)))) sk fm
                             (syncReset t (run sk pb ob evs))))"
    by (simp add: moveObstacles_all incrementScore_funpow_speed_ge_one)
qed

theorem speed_within_range_and_monotone_witness:
  "status (gameState (run Cat samplePlayerBox sampleObstacleBox sampleSession)) = PLAYING \<and>
   1 \<le> speed (incrementScore 50 (startGame initialGameState)) \<and>
   speed (gameState (run Cat samplePlayerBox sampleObstacleBox sampleSession))
     \<le> speed (gameState (run Cat samplePlayerBox sampleObstacleBox (sampleSession @ [KeyDown ''a''])))"
proof -
  have st: "status (gameState (run Cat samplePlayerBox sampleObstacleBox sampleSession)) = PLAYING"
    by (simp add: sampleSession_def run_def handle_def isMenu_def initialComponent_def
        initialGameState_def startGame_def animate_def Let_def playingFrame_def
        syncReset_def resetScene_def checkCollisions_def sampleFrame_def obstacleSpawnRate_def)
  have h: "\<forall>k < length [KeyDown ''a'']. status (gameState
       (run Cat samplePlayerBox sampleObstacleBox (sampleSession @ take k [KeyDown ''a''])))
      = PLAYING"
    using st by simp
  have g: "(1::real) \<le> speed (startGame initialGameState)" by (simp add: startGame_def)
  from speed_within_range_and_monotone
         [of Cat samplePlayerBox sampleObstacleBox sampleSession "[KeyDown ''a'']"
             "startGame initialGameState" 50]
  show ?thesis using st h g by blast
qed


lemma resetScene_fields:
  "obstacles (resetScene u s) = []"
  "currentLane (resetScene u s) = 0"
  "targetX (resetScene u s) = 0"
  "isJumping (resetScene u s) = False"
  "playerY (resetScene u s) = 0"
  "lastObstacleTime (resetScene u s) = u"
  "gameState (resetScene u s) = gameState s"
  "position (player (resetScene u s)) = vec3 0 0 0"
  "rotation (player (resetScene u s)) = vec3 0 0 0"
  by (simp_all add: resetScene_def)

lemma playingFrame_empty_pool:
  assumes "obstacles s = []" and "speed (gameState s) = 1"
    and "now t \<le> lastObstacleTime s"
  shows "playingFrame sk pb ob t s = updatePlayer sk deltaTime (now t) s"
proof -
  have "\<not> now t - lastObstacleTime s > obstacleSpawnRate / speed (gameState s)"
    using assms(2,3) by (simp add: obstacleSpawnRate_def)
  then show ?thesis
    using assms(1) by (simp add: playingFrame_def Let_def checkCollisions_def)
qed

text \<open>
  C1: whatever happened before, on a frame that finds the status \<open>PLAYING\<close> while the
  status recorded by the previous frame was not, \<open>animate\<close> runs \<open>resetScene\<close> first
  and only then the obstacle, player and collision steps. Right after the reset the
  score is 0, the speed 1, the pool empty and the lane 0; and when the clock read inside
  \<open>resetScene\<close> is not earlier than the one read at the head of the frame, the same
  holds at the end of that frame.
\<close>

theorem reset_on_entering_playing:
  assumes "s = run sk pb ob evs"
    and "status (gameState s) = PLAYING"
    and "lastGameStatus s \<noteq> PLAYING"
  shows "animate sk pb ob t s =
           playingFrame sk pb ob t ((resetScene (reset_now t) s)\<lparr>lastGameStatus := PLAYING\<rparr>) \<and>
         score (gameState (resetScene (reset_now t) s)) = 0 \<and>
         speed (gameState (resetScene (reset_now t) s)) = 1 \<and>
         obstacles (resetScene (reset_now t) s) = [] \<and>
         currentLane (resetScene (reset_now t) s) = 0 \<and>
         (now t \<le> reset_now t \<longrightarrow>
            score (gameState (animate sk pb ob t s)) = 0 \<and>
            speed (gameState (animate sk pb ob t s)) = 1 \<and>
            obstacles (animate sk pb ob t s) = [] \<and>
            currentLane (animate sk pb ob t s) = 0)"
proof -
  let ?r = "(resetScene (reset_now t) s)\<lparr>lastGameStatus := PLAYING\<rparr>"
  have fresh: "score (gameState s) = 0" "speed (gameState s) = 1"
    using run_fresh_start [of sk pb ob evs] assms by simp_all
  have sr: "syncReset t s = ?r"
    using assms(2,3) by (simp add: syncReset_def Let_def)
  have a: "animate sk pb ob t s = playingFrame sk pb ob t ?r"
    using assms(2) by (simp add: animate_def Let_def sr)
  have later: "playingFrame sk pb ob t ?r = updatePlayer sk deltaTime (now t) ?r"
    if "now t \<le> reset_now t"
    using that fresh by (intro playingFrame_empty_pool) (simp_all add: resetScene_fields)
  show ?thesis
    using a fresh later by (simp add: resetScene_fields)
qed

theorem reset_on_entering_playing_witness:
  "status (gameState (run Cat samplePlayerBox sampleObstacleBox [ClickStart])) = PLAYING \<and>
   lastGameStatus (run Cat samplePlayerBox sampleObstacleBox [ClickStart]) \<noteq> PLAYING \<and>
   now (sampleFrame 0) \<le> reset_now (sampleFrame 0) \<and>
   score (gameState (animate Cat samplePlayerBox sampleObstacleBox (sampleFrame 0)
            (run Cat samplePlayerBox sampleObstacleBox [ClickStart]))) = 0 \<and>
   obstacles (animate Cat samplePlayerBox sampleObstacleBox (sampleFrame 0)
            (run Cat samplePlayerBox sampleObstacleBox [ClickStart])) = []"
proof -
  have h1: "status (gameState (run Cat samplePlayerBox sampleObstacleBox [ClickStart])) = PLAYING"
    by (simp add: run_def handle_def isMenu_def initialComponent_def initialGameState_def
        startGame_def)
  have h2: "lastGameStatus (run Cat samplePlayerBox sampleObstacleBox [ClickStart]) \<noteq> PLAYING"
    by (simp add: run_def handle_def isMenu_def initialComponent_def initialGameState_def
        startGame_def)
  have h3: "now (sampleFrame 0) \<le> reset_now (sampleFrame 0)"
    by (simp add: sampleFrame_def)
  from reset_on_entering_playing [OF refl h1 h2, of "sampleFrame 0"] h1 h2 h3
  show ?thesis by blast
qed


section \<open>The jump arc\<close>

lemma updatePlayer_landing:
  assumes "isJumping s" and "playerY s + jumpVelocity s \<le> 0"
  shows "landed (updatePlayer sk dt u s)"
  using assms
  by (cases sk; simp add: landed_def updatePlayer_def jumpPhysics_def lateralMove_def Let_def)

lemma updatePlayer_rising:
  assumes "isJumping s" and "\<not> playerY s + jumpVelocity s \<le> 0"
  shows "isJumping (updatePlayer sk dt u s)"
    and "playerY (updatePlayer sk dt u s) = playerY s + jumpVelocity s"
    and "jumpVelocity (updatePlayer sk dt u s) = jumpVelocity s + gravity"
  using assms
  by (cases sk; simp add: updatePlayer_def jumpPhysics_def lateralMove_def Let_def)+

lemma updatePlayer_grounded:
  assumes "\<not> isJumping s"
  shows "\<not> isJumping (updatePlayer sk dt u s)"
    and "0 \<le> playerY (updatePlayer sk dt u s)"
    and "playerY (updatePlayer sk dt u s) \<le> 0.2"
proof -
  have b: "\<bar>sin x\<bar> * 0.1 \<le> (0.2::real) \<and> \<bar>sin x\<bar> * 0.2 \<le> (0.2::real)" for x :: real
  proof -
    have "\<bar>sin x\<bar> \<le> 1" by (rule abs_sin_le_one)
    then show ?thesis by linarith
  qed
  show "\<not> isJumping (updatePlayer sk dt u s)"
    using assms
    by (cases sk; simp add: updatePlayer_def jumpPhysics_def lateralMove_def Let_def)
  show "0 \<le> playerY (updatePlayer sk dt u s)"
    using assms
    by (cases sk; simp add: updatePlayer_def jumpPhysics_def lateralMove_def Let_def)
  show "playerY (updatePlayer sk dt u s) \<le> 0.2"
    using assms b
    by (cases sk; simp add: updatePlayer_def jumpPhysics_def lateralMove_def Let_def)
qed

lemma updatePlayer_nonneg: "0 \<le> playerY (updatePlayer sk dt u s)"
proof (cases "isJumping s")
  case True
  show ?thesis
  proof (cases "playerY s + jumpVelocity s \<le> 0")
    case le: True
    then show ?thesis using updatePlayer_landing [OF True le] by (simp add: landed_def)
  next
    case False
    then show ?thesis using updatePlayer_rising(2) [OF True False] by simp
  qed
next
  case False
  then show ?thesis by (rule updatePlayer_grounded(2))
qed

lemma updatePlayer_posY: "posY (updatePlayer sk dt u s) = playerY (updatePlayer sk dt u s)"
  by (cases sk; simp add: updatePlayer_def Let_def)

lemma arc_closed_form:
  assumes "isJumping s"
  shows "(\<exists>j. 1 \<le> j \<and> j \<le> n \<and> landed (advance sk dt clock j s)) \<or>
         (isJumping (advance sk dt clock n s) \<and>
          (n = 0 \<or> 0 < playerY (advance sk dt clock n s)) \<and>
          playerY (advance sk dt clock n s) =
            playerY s + of_nat n * jumpVelocity s + gravity * of_nat n * (of_nat n - 1) / 2 \<and>
          jumpVelocity (advance sk dt clock n s) = jumpVelocity s + of_nat n * gravity)"
proof (induction n)
  case 0
  then show ?case using assms by simp
next
  case (Suc n)
  let ?a = "advance sk dt clock n s"
  from Suc show ?case
  proof
    assume "\<exists>j. 1 \<le> j \<and> j \<le> n \<and> landed (advance sk dt clock j s)"
    then obtain j where "1 \<le> j" "j \<le> n" "landed (advance sk dt clock j s)" by blast
    then have "1 \<le> j \<and> j \<le> Suc n \<and> landed (advance sk dt clock j s)" by simp
    then show ?thesis by blast
  next
    assume air: "isJumping ?a \<and> (n = 0 \<or> 0 < playerY ?a) \<and>
          playerY ?a =
            playerY s + of_nat n * jumpVelocity s + gravity * of_nat n * (of_nat n - 1) / 2 \<and>
          jumpVelocity ?a = jumpVelocity s + of_nat n * gravity"
    then have j: "isJumping ?a" by simp
    show ?thesis
    proof (cases "playerY ?a + jumpVelocity ?a \<le> 0")
      case True
      have "landed (advance sk dt clock (Suc n) s)"
        using updatePlayer_landing [OF j True] by simp
      then have "1 \<le> Suc n \<and> Suc n \<le> Suc n \<and> landed (advance sk dt clock (Suc n) s)" by simp
      then show ?thesis by blast
    next
      case False
      have y: "playerY (advance sk dt clock (Suc n) s) = playerY ?a + jumpVelocity ?a"
        using updatePlayer_rising(2) [OF j False] by simp
      have v: "jumpVelocity (advance sk dt clock (Suc n) s) = jumpVelocity ?a + gravity"
        using updatePlayer_rising(3) [OF j False] by simp
      have i: "isJumping (advance sk dt clock (Suc n) s)"
        using updatePlayer_rising(1) [OF j False] by simp
      have pos: "0 < playerY (advance sk dt clock (Suc n) s)" using y False by simp
      have "playerY (advance sk dt clock (Suc n) s) =
              playerY s + of_nat (Suc n) * jumpVelocity s
              + gravity * of_nat (Suc n) * (of_nat (Suc n) - 1) / 2"
        unfolding y using air by (simp add: field_simps)
      moreover have "jumpVelocity (advance sk dt clock (Suc n) s) =
              jumpVelocity s + of_nat (Suc n) * gravity"
        unfolding v using air by (simp add: algebra_simps)
      ultimately show ?thesis using i pos by blast
    qed
  qed
qed

lemma jump_lands_within_52:
  assumes "\<not> isJumping s" and "playerY s \<le> 0.2"
  shows "\<exists>n. 1 \<le> n \<and> n \<le> 52 \<and> landed (advance sk dt clock n (jump s))"
proof -
  have j: "isJumping (jump s)" "playerY (jump s) = playerY s" "jumpVelocity (jump s) = jumpForce"
    using assms(1) by (simp_all add: jump_def)
  from arc_closed_form [OF j(1), of 52 sk dt clock]
  show ?thesis
  proof
    assume "\<exists>j. 1 \<le> j \<and> j \<le> 52 \<and> landed (advance sk dt clock j (jump s))"
    then show ?thesis .
  next
    assume a: "isJumping (advance sk dt clock 52 (jump s)) \<and>
          ((52::nat) = 0 \<or> 0 < playerY (advance sk dt clock 52 (jump s))) \<and>
          playerY (advance sk dt clock 52 (jump s)) =
            playerY (jump s) + of_nat 52 * jumpVelocity (jump s)
              + gravity * of_nat 52 * (of_nat 52 - 1) / 2 \<and>
          jumpVelocity (advance sk dt clock 52 (jump s)) = jumpVelocity (jump s) + of_nat 52 * gravity"
    then have "0 < playerY (advance sk dt clock 52 (jump s))" by simp
    moreover have "playerY (advance sk dt clock 52 (jump s)) = playerY s - 0.52"
      using a by (simp add: j jumpForce_def gravity_def)
    ultimately show ?thesis using assms(2) by simp
  qed
qed

lemma advance_nonneg:
  "0 \<le> playerY s \<Longrightarrow> 0 \<le> playerY (advance sk dt clock k s)"
  by (cases k) (simp_all add: updatePlayer_nonneg)


lemma heightOk_cong:
  "playerY s' = playerY s \<Longrightarrow> isJumping s' = isJumping s \<Longrightarrow> heightOk s \<Longrightarrow> heightOk s'"
  by (simp add: heightOk_def)

lemma updatePlayer_heightOk: "heightOk (updatePlayer sk dt u s)"
proof (cases "isJumping s")
  case True
  show ?thesis
  proof (cases "playerY s + jumpVelocity s \<le> 0")
    case le: True
    then show ?thesis using updatePlayer_landing [OF True le] by (simp add: landed_def heightOk_def)
  next
    case False
    then show ?thesis
      using updatePlayer_rising(1,2) [OF True False] by (simp add: heightOk_def)
  qed
next
  case False
  then show ?thesis using updatePlayer_grounded [OF False] by (simp add: heightOk_def)
qed

lemma jump_fields_kept:
  "playerY (handleCrash sk s) = playerY s" "isJumping (handleCrash sk s) = isJumping s"
  "playerY (spawnObstacle sk t s) = playerY s" "isJumping (spawnObstacle sk t s) = isJumping s"
  "playerY (menuFrame sk u s) = playerY s" "isJumping (menuFrame sk u s) = isJumping s"
  "playerY (changeLane sk d s) = playerY s" "isJumping (changeLane sk d s) = isJumping s"
  by (cases sk; simp add: handleCrash_def spawnObstacle_def menuFrame_def changeLane_def Let_def)+

lemma checkCollisions_heightOk: "heightOk s \<Longrightarrow> heightOk (checkCollisions sk pb ob s)"
  by (simp add: checkCollisions_def heightOk_def jump_fields_kept split: option.splits)

lemma playingFrame_heightOk: "heightOk (playingFrame sk pb ob t s)"
  by (simp add: playingFrame_def Let_def checkCollisions_heightOk updatePlayer_heightOk)

lemma syncReset_heightOk: "heightOk s \<Longrightarrow> heightOk (syncReset t s)"
  by (simp add: syncReset_def Let_def heightOk_def resetScene_def)

lemma handle_heightOk:
  assumes "heightOk s"
  shows "heightOk (handle sk pb ob s e)"
proof (cases e)
  case (Frame t)
  have "heightOk (menuFrame sk (now t) (syncReset t s))"
    using syncReset_heightOk [OF assms, of t] by (simp add: heightOk_def jump_fields_kept)
  then show ?thesis
    using Frame syncReset_heightOk [OF assms, of t]
    by (simp add: handle_def animate_def Let_def playingFrame_heightOk)
next
  case (KeyDown key)
  then show ?thesis
    using assms
    by (simp add: handle_def handleKeyboardEvent_def heightOk_def jump_fields_kept jump_def)
next
  case ClickStart
  then show ?thesis using assms by (simp add: handle_def heightOk_def)
next
  case ClickTryAgain
  then show ?thesis using assms by (simp add: handle_def heightOk_def)
next
  case ClickMainMenu
  then show ?thesis using assms by (simp add: handle_def heightOk_def)
qed

lemma run_heightOk: "heightOk (run sk pb ob evs)"
proof (induction evs rule: rev_induct)
  case Nil
  then show ?case by (simp add: run_def initialComponent_def heightOk_def)
next
  case (snoc e evs)
  then show ?case unfolding run_snoc by (rule handle_heightOk)
qed

text \<open>
  C6: with the constants \<open>gravity\<close> and \<open>jumpForce\<close> of the code and any fixed
  \<open>dt\<close>, from any state the program reaches in which the player is on the ground, one
  jump followed by player ticks brings the player back to vertical position 0, not
  jumping, within 52 ticks, and the vertical position is at least 0 after every tick.
\<close>

theorem jump_arc_returns_to_ground:
  assumes "s = run sk pb ob evs" and "\<not> isJumping s"
  shows "(\<exists>n. 1 \<le> n \<and> n \<le> 52 \<and>
              playerY (advance sk dt clock n (jump s)) = 0 \<and>
              posY (advance sk dt clock n (jump s)) = 0 \<and>
              \<not> isJumping (advance sk dt clock n (jump s))) \<and>
         (\<forall>k. 0 \<le> playerY (advance sk dt clock k (jump s)))"
proof
  have ok: "heightOk s" unfolding assms(1) by (rule run_heightOk)
  then have y: "0 \<le> playerY s" "playerY s \<le> 0.2"
    using assms(2) by (simp_all add: heightOk_def)
  from jump_lands_within_52 [OF assms(2) y(2), of sk dt clock]
  obtain n where "1 \<le> n" "n \<le> 52" "landed (advance sk dt clock n (jump s))" by blast
  then have "1 \<le> n \<and> n \<le> 52 \<and>
              playerY (advance sk dt clock n (jump s)) = 0 \<and>
              posY (advance sk dt clock n (jump s)) = 0 \<and>
              \<not> isJumping (advance sk dt clock n (jump s))"
    by (simp add: landed_def)
  then show "\<exists>n. 1 \<le> n \<and> n \<le> 52 \<and>
              playerY (advance sk dt clock n (jump s)) = 0 \<and>
              posY (advance sk dt clock n (jump s)) = 0 \<and>
              \<not> isJumping (advance sk dt clock n (jump s))" by blast
  have "0 \<le> playerY (jump s)" using y(1) by (simp add: jump_def)
  then show "\<forall>k. 0 \<le> playerY (advance sk dt clock k (jump s))"
    by (simp add: advance_nonneg)
qed

theorem jump_arc_returns_to_ground_witness:
  "\<not> isJumping (run Plane samplePlayerBox sampleObstacleBox [ClickStart]) \<and>
   (\<exists>n. 1 \<le> n \<and> n \<le> 52 \<and>
      playerY (advance Plane 0.016 (\<lambda>i. 16 * real i) n
                 (jump (run Plane samplePlayerBox sampleObstacleBox [ClickStart]))) = 0 \<and>
      \<not> isJumping (advance Plane 0.016 (\<lambda>i. 16 * real i) n
                 (jump (run Plane samplePlayerBox sampleObstacleBox [ClickStart]))))"
proof -
  have h: "\<not> isJumping (run Plane samplePlayerBox sampleObstacleBox [ClickStart])"
    by (simp add: run_def handle_def isMenu_def initialComponent_def initialGameState_def)
  from jump_arc_returns_to_ground [OF refl h, of "0.016" "\<lambda>i. 16 * real i"] h
  show ?thesis by blast
qed


section \<open>Collision detection\<close>

lemma collisionLoop_find:
  "collisionLoop sk pb ob p obss = find (hitTest sk pb ob p) obss"
  by (induction obss) simp_all

lemma hitTest_Cat:
  "hitTest Cat pb ob p obs \<longleftrightarrow>
     nearPlayer p obs \<and> intersectsBox (shrink 0.4 0 0.4 (pb p)) (shrink 0.2 0 0.2 (ob obs))"
  by (auto simp: hitTest_def nearPlayer_def shrinkPlayer_def shrinkObstacle_def Let_def)

lemma hitTest_Plane:
  "hitTest Plane pb ob p obs \<longleftrightarrow>
     intersectsBox (shrink 0.3 0.2 0.2 (pb p)) (shrink 0.2 0 0.2 (ob obs))"
  by (simp add: hitTest_def shrinkPlayer_def shrinkObstacle_def)

text \<open>
  C8, as the code has it: in the plane skin the player's box is shrunk on every axis
  (0.3, 0.2, 0.2) and the obstacle's box on the lateral and depth axes (0.2), and the
  loop stops at the first obstacle, in pool order, whose shrunk box overlaps the
  player's shrunk box on all three axes. In the cat skin the player's box is shrunk on
  the lateral and depth axes only (0.4) and the loop stops at the first obstacle that is
  near the player (depth distance below 1.5, lateral distance below 1.0) and whose
  shrunk box overlaps the player's. Two boxes intersect exactly when their ranges
  overlap on the three axes, and the crash is handled exactly when the loop stops.
\<close>

theorem collision_test_by_skin:
  "collisionLoop Plane pb ob p obss =
     find (\<lambda>obs. intersectsBox (shrink 0.3 0.2 0.2 (pb p)) (shrink 0.2 0 0.2 (ob obs))) obss \<and>
   collisionLoop Cat pb ob p obss =
     find (\<lambda>obs. nearPlayer p obs \<and>
                 intersectsBox (shrink 0.4 0 0.4 (pb p)) (shrink 0.2 0 0.2 (ob obs))) obss \<and>
   intersectsBox a b =
     (vx (bmin a) \<le> vx (bmax b) \<and> vx (bmin b) \<le> vx (bmax a) \<and>
      vy (bmin a) \<le> vy (bmax b) \<and> vy (bmin b) \<le> vy (bmax a) \<and>
      vz (bmin a) \<le> vz (bmax b) \<and> vz (bmin b) \<le> vz (bmax a)) \<and>
   checkCollisions sk pb ob s =
     (if collisionLoop sk pb ob (player s) (obstacles s) = None then s else handleCrash sk s)"
proof (intro conjI)
  show "collisionLoop Plane pb ob p obss =
     find (\<lambda>obs. intersectsBox (shrink 0.3 0.2 0.2 (pb p)) (shrink 0.2 0 0.2 (ob obs))) obss"
    unfolding collisionLoop_find by (rule arg_cong [where f = "\<lambda>P. find P obss"]) (simp add: fun_eq_iff hitTest_Plane)
  show "collisionLoop Cat pb ob p obss =
     find (\<lambda>obs. nearPlayer p obs \<and>
                 intersectsBox (shrink 0.4 0 0.4 (pb p)) (shrink 0.2 0 0.2 (ob obs))) obss"
    unfolding collisionLoop_find by (rule arg_cong [where f = "\<lambda>P. find P obss"]) (simp add: fun_eq_iff hitTest_Cat)
  show "intersectsBox a b =
     (vx (bmin a) \<le> vx (bmax b) \<and> vx (bmin b) \<le> vx (bmax a) \<and>
      vy (bmin a) \<le> vy (bmax b) \<and> vy (bmin b) \<le> vy (bmax a) \<and>
      vz (bmin a) \<le> vz (bmax b) \<and> vz (bmin b) \<le> vz (bmax a))"
    by (simp add: intersectsBox_def)
  show "checkCollisions sk pb ob s =
     (if collisionLoop sk pb ob (player s) (obstacles s) = None then s else handleCrash sk s)"
    by (simp add: checkCollisions_def split: option.splits)
qed

theorem collision_test_by_skin_witness:
  "collisionLoop Plane samplePlayerBox sampleObstacleBox (player initialComponent)
     [obstacleAt 3 0, obstacleAt 0 0.5, obstacleAt 0 0] = Some (obstacleAt 0 0.5) \<and>
   collisionLoop Cat samplePlayerBox sampleObstacleBox (player initialComponent)
     [obstacleAt 1.2 0, obstacleAt 0 0.5, obstacleAt 0 0] = Some (obstacleAt 0 0.5) \<and>
   checkCollisions Cat samplePlayerBox sampleObstacleBox hitState = handleCrash Cat hitState"
proof -
  have ne: "obstacleAt 0 0 \<noteq> obstacleAt 0 0.5" "obstacleAt 3 0 \<noteq> obstacleAt 0 0.5"
    by (simp_all add: obstacleAt_def vec3_def)
  have a: "find (\<lambda>obs. intersectsBox (shrink 0.3 0.2 0.2 (samplePlayerBox (player initialComponent)))
                         (shrink 0.2 0 0.2 (sampleObstacleBox obs)))
             [obstacleAt 3 0, obstacleAt 0 0.5, obstacleAt 0 0] = Some (obstacleAt 0 0.5)"
    by (simp add: intersectsBox_def shrink_def samplePlayerBox_def sampleObstacleBox_def
        boxAt_def vec3_def obstacleAt_def initialComponent_def)
  have b: "find (\<lambda>obs. nearPlayer (player initialComponent) obs \<and>
                        intersectsBox (shrink 0.4 0 0.4 (samplePlayerBox (player initialComponent)))
                         (shrink 0.2 0 0.2 (sampleObstacleBox obs)))
             [obstacleAt 1.2 0, obstacleAt 0 0.5, obstacleAt 0 0] = Some (obstacleAt 0 0.5)"
    by (simp add: intersectsBox_def shrink_def samplePlayerBox_def sampleObstacleBox_def
        boxAt_def vec3_def obstacleAt_def initialComponent_def nearPlayer_def)
  have c: "collisionLoop Cat samplePlayerBox sampleObstacleBox (player hitState) (obstacles hitState)
             \<noteq> None"
    by (simp add: intersectsBox_def shrinkPlayer_def shrinkObstacle_def shrink_def
      samplePlayerBox_def sampleObstacleBox_def boxAt_def vec3_def obstacleAt_def
      initialComponent_def hitTest_def Let_def hitState_def)
  have p: "collisionLoop Plane samplePlayerBox sampleObstacleBox (player initialComponent)
     [obstacleAt 3 0, obstacleAt 0 0.5, obstacleAt 0 0] = Some (obstacleAt 0 0.5)"
    by (rule trans [OF conjunct1 [OF collision_test_by_skin
          [of samplePlayerBox sampleObstacleBox "player initialComponent"
              "[obstacleAt 3 0, obstacleAt 0 0.5, obstacleAt 0 0]"]] a])
  have q: "collisionLoop Cat samplePlayerBox sampleObstacleBox (player initialComponent)
     [obstacleAt 1.2 0, obstacleAt 0 0.5, obstacleAt 0 0] = Some (obstacleAt 0 0.5)"
    by (rule trans [OF conjunct1 [OF conjunct2 [OF collision_test_by_skin
          [of samplePlayerBox sampleObstacleBox "player initialComponent"
              "[obstacleAt 1.2 0, obstacleAt 0 0.5, obstacleAt 0 0]"]]] b])
  have r: "checkCollisions Cat samplePlayerBox sampleObstacleBox hitState = handleCrash Cat hitState"
    using conjunct2 [OF conjunct2 [OF conjunct2 [OF collision_test_by_skin
            [of samplePlayerBox sampleObstacleBox _ _ _ _ Cat hitState]]]] c
    by simp
  show ?thesis using p q r by simp
qed

text \<open>
  C8 as stated fails in the cat skin: an obstacle 1.2 to the side of the player overlaps
  the player's shrunk box on all three axes and yet is not reported, and the player's
  box keeps its vertical extent.
\<close>

theorem collision_test_counterexample:
  "intersectsBox (shrinkPlayer Cat (samplePlayerBox (player initialComponent)))
                 (shrinkObstacle (sampleObstacleBox (obstacleAt 1.2 0))) \<and>
   collisionLoop Cat samplePlayerBox sampleObstacleBox (player initialComponent) [obstacleAt 1.2 0]
     = None \<and>
   vy (bmin (shrinkPlayer Cat (samplePlayerBox (player initialComponent))))
     = vy (bmin (samplePlayerBox (player initialComponent))) \<and>
   vy (bmax (shrinkPlayer Cat (samplePlayerBox (player initialComponent))))
     = vy (bmax (samplePlayerBox (player initialComponent)))"
  by (simp add: intersectsBox_def shrinkPlayer_def shrinkObstacle_def shrink_def
      samplePlayerBox_def sampleObstacleBox_def boxAt_def vec3_def obstacleAt_def
      initialComponent_def hitTest_def Let_def)

text \<open>
  C7 as stated fails: on the frame that detects a collision the status becomes
  \<open>GAME_OVER\<close> and the player group is moved and turned into the crash pose.
\<close>

theorem crash_pose_counterexample:
  "status (gameState hitState) = PLAYING \<and>
   status (gameState (checkCollisions Cat samplePlayerBox sampleObstacleBox hitState)) = GAME_OVER \<and>
   position (player (checkCollisions Cat samplePlayerBox sampleObstacleBox hitState))
     \<noteq> position (player hitState) \<and>
   rotation (player (checkCollisions Cat samplePlayerBox sampleObstacleBox hitState))
     \<noteq> rotation (player hitState) \<and>
   status (gameState (animate Cat samplePlayerBox sampleObstacleBox (sampleFrame 0) approachState))
     = GAME_OVER \<and>
   posY (animate Cat samplePlayerBox sampleObstacleBox (sampleFrame 0) approachState) = 0.2 \<and>
   playerY (animate Cat samplePlayerBox sampleObstacleBox (sampleFrame 0) approachState) = 0"
proof -
  have hit: "hitTest Cat samplePlayerBox sampleObstacleBox (player initialComponent) (obstacleAt 0 0)"
    by (simp add: intersectsBox_def shrinkPlayer_def shrinkObstacle_def shrink_def
      samplePlayerBox_def sampleObstacleBox_def boxAt_def vec3_def obstacleAt_def
      initialComponent_def hitTest_def Let_def)
  have a: "status (gameState hitState) = PLAYING"
    by (simp add: hitState_def startGame_def)
  have c: "checkCollisions Cat samplePlayerBox sampleObstacleBox hitState = handleCrash Cat hitState"
    using hit by (simp add: checkCollisions_def hitState_def)
  have b: "status (gameState (handleCrash Cat hitState)) = GAME_OVER"
    by (simp add: endGame_def)
  have p: "position (player (handleCrash Cat hitState)) \<noteq> position (player hitState)"
    by (simp add: handleCrash_def hitState_def initialComponent_def vec3_def Let_def)
  have r: "rotation (player (handleCrash Cat hitState)) \<noteq> rotation (player hitState)"
    by (simp add: handleCrash_def hitState_def initialComponent_def vec3_def Let_def)
  have fr: "animate Cat samplePlayerBox sampleObstacleBox (sampleFrame 0) approachState =
              handleCrash Cat (updatePlayer Cat deltaTime 0
                (approachState\<lparr>obstacles :=
                  [\<lparr>otype = box, oposition = vec3 0 0 0, child0_rotation = vec3 0.02 0.01 0\<rparr>]\<rparr>))"
    by (simp add: animate_def syncReset_def playingFrame_def approachState_def
        initialComponent_def initialGameState_def startGame_def obstacleAt_def moveObstacle_def
        vec3_def Let_def baseSpeed_def deltaTime_def obstacleSpawnRate_def sampleFrame_def
        checkCollisions_def hitTest_def updatePlayer_def jumpPhysics_def lateralMove_def
        lerpSpeed_def intersectsBox_def shrinkPlayer_def shrinkObstacle_def shrink_def
        samplePlayerBox_def sampleObstacleBox_def boxAt_def)
  have f1: "status (gameState (animate Cat samplePlayerBox sampleObstacleBox (sampleFrame 0)
              approachState)) = GAME_OVER"
    unfolding fr by (simp add: endGame_def)
  have f2: "posY (animate Cat samplePlayerBox sampleObstacleBox (sampleFrame 0) approachState) = 0.2"
    unfolding fr by (simp add: handleCrash_def Let_def)
  have f3: "playerY (animate Cat samplePlayerBox sampleObstacleBox (sampleFrame 0) approachState) = 0"
    unfolding fr
    by (simp add: handleCrash_def Let_def updatePlayer_def jumpPhysics_def lateralMove_def
        approachState_def initialComponent_def)
  show ?thesis using a b p r f1 f2 f3 unfolding c by simp
qed


lemma handleCrash_player:
  "posX (handleCrash sk s) = posX s"
  "posZ (handleCrash sk s) = posZ s"
  "rotY (handleCrash sk s) = rotY s"
  "scale (player (handleCrash sk s)) = scale (player s)"
  "posY (handleCrash sk s) = (case sk of Cat \<Rightarrow> 0.2 | Plane \<Rightarrow> 0.5)"
  "rotX (handleCrash sk s) = (case sk of Cat \<Rightarrow> - pi / 2 | Plane \<Rightarrow> - pi / 4)"
  "rotZ (handleCrash sk s) = (case sk of Cat \<Rightarrow> rotZ s | Plane \<Rightarrow> pi / 4)"
  "jumpVelocity (handleCrash sk s) = jumpVelocity s"
  by (cases sk; simp add: handleCrash_def Let_def)+

text \<open>
  C7, as the code has it: when the collision check finds an obstacle, the status is set
  to \<open>GAME_OVER\<close>; score, speed, the obstacles, the player's lateral and depth
  position, its simulated height and jump state, the lane and the target offset are
  left as they are; the player group is put into the crash pose (height 0.2 and pitch
  \<open>-\<pi>/2\<close> for the cat; height 0.5, pitch \<open>-\<pi>/4\<close> and roll \<open>\<pi>/4\<close> for the plane).
\<close>

theorem crash_sets_game_over_and_pose:
  assumes "collisionLoop sk pb ob (player s) (obstacles s) = Some obs"
  shows "status (gameState (checkCollisions sk pb ob s)) = GAME_OVER \<and>
         score (gameState (checkCollisions sk pb ob s)) = score (gameState s) \<and>
         speed (gameState (checkCollisions sk pb ob s)) = speed (gameState s) \<and>
         obstacles (checkCollisions sk pb ob s) = obstacles s \<and>
         posX (checkCollisions sk pb ob s) = posX s \<and>
         posZ (checkCollisions sk pb ob s) = posZ s \<and>
         playerY (checkCollisions sk pb ob s) = playerY s \<and>
         isJumping (checkCollisions sk pb ob s) = isJumping s \<and>
         jumpVelocity (checkCollisions sk pb ob s) = jumpVelocity s \<and>
         currentLane (checkCollisions sk pb ob s) = currentLane s \<and>
         targetX (checkCollisions sk pb ob s) = targetX s \<and>
         rotY (checkCollisions sk pb ob s) = rotY s \<and>
         scale (player (checkCollisions sk pb ob s)) = scale (player s) \<and>
         posY (checkCollisions sk pb ob s) = (case sk of Cat \<Rightarrow> 0.2 | Plane \<Rightarrow> 0.5) \<and>
         rotX (checkCollisions sk pb ob s) = (case sk of Cat \<Rightarrow> - pi / 2 | Plane \<Rightarrow> - pi / 4) \<and>
         rotZ (checkCollisions sk pb ob s) = (case sk of Cat \<Rightarrow> rotZ s | Plane \<Rightarrow> pi / 4)"
proof -
  have c: "checkCollisions sk pb ob s = handleCrash sk s"
    using assms by (simp add: checkCollisions_def)
  show ?thesis
    unfolding c by (simp add: handleCrash_player jump_fields_kept endGame_def)
qed

theorem crash_sets_game_over_and_pose_witness:
  "collisionLoop Cat samplePlayerBox sampleObstacleBox (player hitState) (obstacles hitState)
     = Some (obstacleAt 0 0) \<and>
   status (gameState (checkCollisions Cat samplePlayerBox sampleObstacleBox hitState)) = GAME_OVER \<and>
   obstacles (checkCollisions Cat samplePlayerBox sampleObstacleBox hitState) = obstacles hitState \<and>
   posX (checkCollisions Cat samplePlayerBox sampleObstacleBox hitState) = posX hitState \<and>
   posY (checkCollisions Cat samplePlayerBox sampleObstacleBox hitState) = 0.2"
proof -
  have h: "collisionLoop Cat samplePlayerBox sampleObstacleBox (player hitState) (obstacles hitState)
     = Some (obstacleAt 0 0)"
    by (simp add: intersectsBox_def shrinkPlayer_def shrinkObstacle_def shrink_def
      samplePlayerBox_def sampleObstacleBox_def boxAt_def vec3_def obstacleAt_def
      initialComponent_def hitTest_def Let_def hitState_def)
  from crash_sets_game_over_and_pose [OF h] h show ?thesis by simp
qed

lemma sin_leanAngle: "sin leanAngle = 7 / 25"
  by (simp add: leanAngle_def)

lemma cos_leanAngle: "cos leanAngle = 24 / 25"
proof -
  have "cos leanAngle = sqrt (1 - (7 / 25)\<^sup>2)"
    unfolding leanAngle_def by (rule cos_arcsin) simp_all
  also have "1 - (7 / 25 :: real)\<^sup>2 = (24 / 25)\<^sup>2"
    by (simp add: power2_eq_square)
  also have "sqrt ((24 / 25 :: real)\<^sup>2) = 24 / 25"
    by simp
  finally show ?thesis .
qed

lemma leaning_boxes:
  "leaningPlayerBox leaningLeft =
     \<lparr>bmin = vec3 (- 1.724) (- 0.266) (- 0.7), bmax = vec3 0.912 3.05 0.55\<rparr>"
  "leaningPlayerBox leaningRight =
     \<lparr>bmin = vec3 (- 1.724) (- 0.266) (- 0.7), bmax = vec3 0.912 3.05 0.55\<rparr>"
  by (simp_all add: leaningPlayerBox_def leaningLeft_def leaningRight_def Let_def boxAt_def
      vec3_def sin_leanAngle cos_leanAngle)


lemma map_pair_zip: "map (\<lambda>x. (f x, g x)) xs = zip (map f xs) (map g xs)"
  by (induction xs) simp_all

lemma find_mapped: "find P (map f xs) = map_option f (find (P \<circ> f) xs)"
  by (induction xs) simp_all

lemma collisionLoop_Plane_boxes:
  "map_option ob (collisionLoop Plane pb ob p os) =
     find (\<lambda>b. intersectsBox (shrink 0.3 0.2 0.2 (pb p)) (shrink 0.2 0 0.2 b)) (map ob os)"
proof -
  have "(\<lambda>b. intersectsBox (shrink 0.3 0.2 0.2 (pb p)) (shrink 0.2 0 0.2 b)) \<circ> ob
          = hitTest Plane pb ob p"
    by (simp add: fun_eq_iff hitTest_Plane)
  then show ?thesis by (simp add: collisionLoop_find find_mapped)
qed

lemma collisionLoop_Cat_boxes:
  "map_option (\<lambda>obs. (ob obs, oposition obs)) (collisionLoop Cat pb ob p os) =
     find (\<lambda>(b, q). \<bar>vz q - vz (position p)\<bar> < 1.5 \<and> \<bar>vx q - vx (position p)\<bar> < 1.0 \<and>
                     intersectsBox (shrink 0.4 0 0.4 (pb p)) (shrink 0.2 0 0.2 b))
          (map (\<lambda>obs. (ob obs, oposition obs)) os)"
proof -
  have "(\<lambda>(b, q). \<bar>vz q - vz (position p)\<bar> < 1.5 \<and> \<bar>vx q - vx (position p)\<bar> < 1.0 \<and>
                     intersectsBox (shrink 0.4 0 0.4 (pb p)) (shrink 0.2 0 0.2 b))
          \<circ> (\<lambda>obs. (ob obs, oposition obs))
          = hitTest Cat pb ob p"
    by (auto simp: fun_eq_iff hitTest_Cat nearPlayer_def)
  then show ?thesis by (simp add: collisionLoop_find find_mapped)
qed

lemma map_option_eq_None_iff:
  "map_option f x = map_option g y \<Longrightarrow> (x = None) = (y = None)"
  by (cases x; cases y) simp_all

text \<open>
  C9, as the code has it: collision detection is a function of its inputs, with the
  shrink margins applied before every box test. In the plane skin the box of the
  reported obstacle is the first box of the pool that overlaps the player's box, after
  shrinking the player's by 0.3, 0.2, 0.2 and the obstacle's by 0.2 laterally and in
  depth; so two calls with identical player and obstacle boxes give the same result. In
  the cat skin the test also reads the positions (depth distance below 1.5, lateral
  distance below 1.0), with margins 0.4 and 0.2 on the lateral and depth axes; so two
  calls with identical boxes and identical positions give the same result. The status
  after the check is \<open>GAME_OVER\<close> exactly when an obstacle is reported, and the old
  status otherwise.
\<close>

theorem collision_result_from_boxes:
  "map_option ob (collisionLoop Plane pb ob p os) =
     find (\<lambda>b. intersectsBox (shrink 0.3 0.2 0.2 (pb p)) (shrink 0.2 0 0.2 b)) (map ob os) \<and>
   map_option (\<lambda>obs. (ob obs, oposition obs)) (collisionLoop Cat pb ob p os) =
     find (\<lambda>(b, q). \<bar>vz q - vz (position p)\<bar> < 1.5 \<and> \<bar>vx q - vx (position p)\<bar> < 1.0 \<and>
                     intersectsBox (shrink 0.4 0 0.4 (pb p)) (shrink 0.2 0 0.2 b))
          (map (\<lambda>obs. (ob obs, oposition obs)) os) \<and>
   (pb p1 = pb p2 \<and> map ob os1 = map ob os2 \<longrightarrow>
      (collisionLoop Plane pb ob p1 os1 = None) = (collisionLoop Plane pb ob p2 os2 = None) \<and>
      map_option ob (collisionLoop Plane pb ob p1 os1)
        = map_option ob (collisionLoop Plane pb ob p2 os2)) \<and>
   (pb p1 = pb p2 \<and> position p1 = position p2 \<and>
    map ob os1 = map ob os2 \<and> map oposition os1 = map oposition os2 \<longrightarrow>
      (collisionLoop Cat pb ob p1 os1 = None) = (collisionLoop Cat pb ob p2 os2 = None) \<and>
      map_option (\<lambda>obs. (ob obs, oposition obs)) (collisionLoop Cat pb ob p1 os1)
        = map_option (\<lambda>obs. (ob obs, oposition obs)) (collisionLoop Cat pb ob p2 os2)) \<and>
   status (gameState (checkCollisions sk pb ob s)) =
     (if collisionLoop sk pb ob (player s) (obstacles s) = None then status (gameState s)
      else GAME_OVER)"
proof (intro conjI impI)
  show "map_option ob (collisionLoop Plane pb ob p os) =
     find (\<lambda>b. intersectsBox (shrink 0.3 0.2 0.2 (pb p)) (shrink 0.2 0 0.2 b)) (map ob os)"
    by (rule collisionLoop_Plane_boxes)
  show "map_option (\<lambda>obs. (ob obs, oposition obs)) (collisionLoop Cat pb ob p os) =
     find (\<lambda>(b, q). \<bar>vz q - vz (position p)\<bar> < 1.5 \<and> \<bar>vx q - vx (position p)\<bar> < 1.0 \<and>
                     intersectsBox (shrink 0.4 0 0.4 (pb p)) (shrink 0.2 0 0.2 b))
          (map (\<lambda>obs. (ob obs, oposition obs)) os)"
    by (rule collisionLoop_Cat_boxes)
  show "status (gameState (checkCollisions sk pb ob s)) =
     (if collisionLoop sk pb ob (player s) (obstacles s) = None then status (gameState s)
      else GAME_OVER)"
    by (simp add: checkCollisions_status split: option.splits)
next
  assume a: "pb p1 = pb p2 \<and> map ob os1 = map ob os2"
  show e: "map_option ob (collisionLoop Plane pb ob p1 os1)
        = map_option ob (collisionLoop Plane pb ob p2 os2)"
    unfolding collisionLoop_Plane_boxes using a by simp
  show "(collisionLoop Plane pb ob p1 os1 = None) = (collisionLoop Plane pb ob p2 os2 = None)"
    using e by (rule map_option_eq_None_iff)
next
  assume a: "pb p1 = pb p2 \<and> position p1 = position p2 \<and>
    map ob os1 = map ob os2 \<and> map oposition os1 = map oposition os2"
  show e: "map_option (\<lambda>obs. (ob obs, oposition obs)) (collisionLoop Cat pb ob p1 os1)
        = map_option (\<lambda>obs. (ob obs, oposition obs)) (collisionLoop Cat pb ob p2 os2)"
    unfolding collisionLoop_Cat_boxes map_pair_zip using a by simp
  show "(collisionLoop Cat pb ob p1 os1 = None) = (collisionLoop Cat pb ob p2 os2 = None)"
    using e by (rule map_option_eq_None_iff)
qed

theorem collision_result_from_boxes_witness:
  "leaningPlayerBox leaningLeft = leaningPlayerBox leaningRight \<and>
   position leaningLeft \<noteq> position leaningRight \<and>
   collisionLoop Plane leaningPlayerBox sampleObstacleBox leaningLeft [obstacleAt 0.5 0]
     = Some (obstacleAt 0.5 0) \<and>
   collisionLoop Plane leaningPlayerBox sampleObstacleBox leaningRight [obstacleAt 0.5 0] \<noteq> None \<and>
   map_option (\<lambda>obs. (sampleObstacleBox obs, oposition obs))
     (collisionLoop Cat leaningPlayerBox sampleObstacleBox leaningLeft [obstacleAt 0.5 0])
     = Some (sampleObstacleBox (obstacleAt 0.5 0), oposition (obstacleAt 0.5 0))"
proof -
  have b: "leaningPlayerBox leaningLeft = leaningPlayerBox leaningRight"
    by (simp add: leaning_boxes)
  have n: "position leaningLeft \<noteq> position leaningRight"
    by (simp add: leaningLeft_def leaningRight_def vec3_def)
  have h: "collisionLoop Plane leaningPlayerBox sampleObstacleBox leaningLeft [obstacleAt 0.5 0]
     = Some (obstacleAt 0.5 0)"
    by (simp add: leaning_boxes hitTest_def Let_def intersectsBox_def shrinkPlayer_def
        shrinkObstacle_def shrink_def sampleObstacleBox_def boxAt_def vec3_def obstacleAt_def)
  have f: "find (\<lambda>(b, q). \<bar>vz q - vz (position leaningLeft)\<bar> < 1.5 \<and>
                         \<bar>vx q - vx (position leaningLeft)\<bar> < 1.0 \<and>
                         intersectsBox (shrink 0.4 0 0.4 (leaningPlayerBox leaningLeft))
                           (shrink 0.2 0 0.2 b))
             (map (\<lambda>obs. (sampleObstacleBox obs, oposition obs)) [obstacleAt 0.5 0])
           = Some (sampleObstacleBox (obstacleAt 0.5 0), oposition (obstacleAt 0.5 0))"
  proof -
    have p: "position leaningLeft = vec3 0 0 0" by (simp add: leaningLeft_def)
    show ?thesis
      by (simp add: leaning_boxes p intersectsBox_def shrink_def sampleObstacleBox_def boxAt_def
          vec3_def obstacleAt_def)
  qed
  note t = collision_result_from_boxes
         [of sampleObstacleBox leaningPlayerBox leaningLeft "[obstacleAt 0.5 0]"
             leaningLeft leaningRight "[obstacleAt 0.5 0]" "[obstacleAt 0.5 0]"]
  from t have "(collisionLoop Plane leaningPlayerBox sampleObstacleBox leaningLeft [obstacleAt 0.5 0] = None)
      = (collisionLoop Plane leaningPlayerBox sampleObstacleBox leaningRight [obstacleAt 0.5 0] = None)"
    using b by blast
  then have r: "collisionLoop Plane leaningPlayerBox sampleObstacleBox leaningRight [obstacleAt 0.5 0]
      \<noteq> None"
    using h by simp
  have c: "map_option (\<lambda>obs. (sampleObstacleBox obs, oposition obs))
     (collisionLoop Cat leaningPlayerBox sampleObstacleBox leaningLeft [obstacleAt 0.5 0])
     = Some (sampleObstacleBox (obstacleAt 0.5 0), oposition (obstacleAt 0.5 0))"
    by (rule trans [OF conjunct1 [OF conjunct2 [OF t]] f])
  show ?thesis using b n h r c by blast
qed

text \<open>
  C9 as stated fails in the cat skin: the two leaning players have identical bounding
  boxes, the obstacle is the same, and the check reports a collision for the first
  player and none for the second, which stands more than 1.0 from the obstacle.
\<close>

theorem collision_result_counterexample:
  "leaningPlayerBox leaningLeft = leaningPlayerBox leaningRight \<and>
   collisionLoop Cat leaningPlayerBox sampleObstacleBox leaningLeft [obstacleAt 0.5 0]
     = Some (obstacleAt 0.5 0) \<and>
   collisionLoop Cat leaningPlayerBox sampleObstacleBox leaningRight [obstacleAt 0.5 0] = None"
proof -
  have p: "position leaningLeft = vec3 0 0 0" "position leaningRight = vec3 (- 0.812) 0 0"
    by (simp_all add: leaningLeft_def leaningRight_def)
  show ?thesis
    by (simp add: leaning_boxes p hitTest_def Let_def intersectsBox_def shrinkPlayer_def
        shrinkObstacle_def shrink_def sampleObstacleBox_def boxAt_def vec3_def obstacleAt_def)
qed

end
